theory Spec2Isabelle
  imports Main "HOL-Library.Sublist"
begin

section \<open>create-revite: the command line program of bin/cli.js\<close>

text \<open>
  The program is a Node.js script. Its asynchronous functions are awaited one after the
  other, so each is modelled as a function from the world before the call to a result and
  the world after it. A rejected promise or a thrown exception is the result \<open>Inl\<close>.

  Text is a \<open>string\<close>: the list of the bytes of its UTF-8 encoding, which is what
  \<open>fs.readFile(_, 'utf-8')\<close> decodes and \<open>fs.writeFile\<close> encodes. All texts the program
  searches for are ASCII, so a match on bytes is a match on the JavaScript string.
\<close>

subsection \<open>JavaScript strings\<close>

text \<open>\<open>s.startsWith(p)\<close>\<close>

fun startsWith :: "'a list \<Rightarrow> 'a list \<Rightarrow> bool" where
  "startsWith s [] = True"
| "startsWith [] (p # ps) = False"
| "startsWith (c # cs) (p # ps) = (c = p \<and> startsWith cs ps)"

text \<open>\<open>s.indexOf(pat)\<close>, with \<open>None\<close> for -1.\<close>

fun indexOf :: "'a list \<Rightarrow> 'a list \<Rightarrow> nat option" where
  "indexOf [] pat = (if pat = [] then Some 0 else None)"
| "indexOf (c # cs) pat =
     (if startsWith (c # cs) pat then Some 0 else map_option Suc (indexOf cs pat))"

text \<open>\<open>s.includes(pat)\<close>\<close>

definition includes_str :: "'a list \<Rightarrow> 'a list \<Rightarrow> bool" where
  "includes_str s pat = (indexOf s pat \<noteq> None)"

text \<open>
  The replacement text of \<open>String.prototype.replace\<close> when the pattern is a string
  (ECMAScript GetSubstitution without captures): \<open>$$\<close> is a dollar sign, \<open>$&\<close> the matched
  text, \<open>$`\<close> the text before the match and \<open>$'\<close> the text after it; every other
  character stands for itself.
\<close>

fun getSubstitution :: "string \<Rightarrow> string \<Rightarrow> string \<Rightarrow> string \<Rightarrow> string" where
  "getSubstitution matched preceding following (c # d # r) =
     (if c = CHR ''$'' \<and> d = CHR ''$'' then
        CHR ''$'' # getSubstitution matched preceding following r
      else if c = CHR ''$'' \<and> d = CHR ''&'' then
        matched @ getSubstitution matched preceding following r
      else if c = CHR ''$'' \<and> d = CHR ''`'' then
        preceding @ getSubstitution matched preceding following r
      else if c = CHR ''$'' \<and> d = CHR 0x27 then
        following @ getSubstitution matched preceding following r
      else c # getSubstitution matched preceding following (d # r))"
| "getSubstitution matched preceding following r = r"

text \<open>
  \<open>s.replace(pat, rep)\<close> with a string pattern: only the first occurrence is replaced, and
  a string without an occurrence is returned as it is.
\<close>

definition js_replace :: "string \<Rightarrow> string \<Rightarrow> string \<Rightarrow> string" where
  "js_replace s pat rep =
     (case indexOf s pat of
        None \<Rightarrow> s
      | Some pos \<Rightarrow>
          take pos s
          @ getSubstitution pat (take pos s) (drop (pos + length pat) s) rep
          @ drop (pos + length pat) s)"

text \<open>\<open>xs.join(sep)\<close>\<close>

fun join :: "string list \<Rightarrow> string \<Rightarrow> string" where
  "join [] sep = []"
| "join [x] sep = x"
| "join (x # y # ys) sep = x @ sep @ join (y # ys) sep"

text \<open>A number in a template literal: its decimal digits.\<close>

definition digit :: "nat \<Rightarrow> char" where
  "digit d = ''0123456789'' ! (d mod 10)"

function string_of_nat :: "nat \<Rightarrow> string" where
  "string_of_nat n = (if n < 10 then [digit n] else string_of_nat (n div 10) @ [digit (n mod 10)])"
  by pat_completeness auto
termination
  by (relation "measure id") auto

subsection \<open>Values and objects\<close>

text \<open>
  The values that can come out of a property lookup on the template table: a string, a
  built-in function, the object \<open>Object.prototype\<close>, or \<open>undefined\<close>.
\<close>

datatype js_value = JSString string | JSFunction string | JSObjectPrototype | JSUndefined

text \<open>\<open>if (v)\<close>, \<open>v || w\<close>: the empty string and \<open>undefined\<close> are falsy.\<close>

fun truthy :: "js_value \<Rightarrow> bool" where
  "truthy (JSString s) = (s \<noteq> [])"
| "truthy (JSFunction f) = True"
| "truthy JSObjectPrototype = True"
| "truthy JSUndefined = False"

text \<open>
  The properties every object literal inherits from \<open>Object.prototype\<close>: eleven methods
  and the accessor \<open>__proto__\<close>, which yields the prototype itself.
\<close>

definition objectPrototypeMethods :: "string list" where
  "objectPrototypeMethods =
     [''constructor'', ''__defineGetter__'', ''__defineSetter__'', ''hasOwnProperty'',
      ''__lookupGetter__'', ''__lookupSetter__'', ''isPrototypeOf'', ''propertyIsEnumerable'',
      ''toString'', ''valueOf'', ''toLocaleString'']"

definition objectPrototype :: "string \<Rightarrow> js_value" where
  "objectPrototype key =
     (if key = ''__proto__'' then JSObjectPrototype
      else if key \<in> set objectPrototypeMethods then JSFunction key
      else JSUndefined)"

text \<open>
  \<open>obj[key]\<close> on an object literal with string-valued own properties: the own property
  if there is one, the inherited one otherwise.
\<close>

definition js_get :: "(string \<times> string) list \<Rightarrow> string \<Rightarrow> js_value" where
  "js_get obj key =
     (case map_of obj key of Some s \<Rightarrow> JSString s | None \<Rightarrow> objectPrototype key)"

subsection \<open>Paths\<close>

text \<open>
  A path is an absolute, normalised POSIX path, kept as the list of its components; the
  root directory is the empty list. \<open>path.join\<close> and \<open>path.resolve\<close> split their
  arguments at slashes, drop empty and \<open>.\<close> components and let \<open>..\<close> remove the
  component before it.
\<close>

type_synonym path = "string list"

fun split_on :: "'a \<Rightarrow> 'a list \<Rightarrow> 'a list list" where
  "split_on sep [] = [[]]"
| "split_on sep (c # cs) =
     (if c = sep then [] # split_on sep cs
      else (case split_on sep cs of [] \<Rightarrow> [[c]] | x # xs \<Rightarrow> (c # x) # xs))"

fun normalize_onto :: "path \<Rightarrow> string list \<Rightarrow> path" where
  "normalize_onto p [] = p"
| "normalize_onto p (s # ss) =
     (if s = [] \<or> s = ''.'' then normalize_onto p ss
      else if s = ''..'' then normalize_onto (butlast p) ss
      else normalize_onto (p @ [s]) ss)"

definition path_join :: "path \<Rightarrow> string list \<Rightarrow> path" where
  "path_join p parts = normalize_onto p (concat (map (split_on CHR ''/'') parts))"

definition path_resolve :: "path \<Rightarrow> string \<Rightarrow> path" where
  "path_resolve cwd_path arg =
     normalize_onto (if startsWith arg ''/'' then [] else cwd_path) (split_on CHR ''/'' arg)"

definition path_dirname :: "path \<Rightarrow> path" where
  "path_dirname p = butlast p"

definition path_basename :: "path \<Rightarrow> string" where
  "path_basename p = (if p = [] then [] else last p)"

subsection \<open>The world: file system and observable events\<close>

text \<open>A directory holds the names of its entries, a file its text.\<close>

datatype node = File string | Dir "string list"

type_synonym filesystem = "path \<rightharpoonup> node"

text \<open>
  Errors: \<open>new Error(message)\<close>, an error of the operating system with its code and the
  path it is about, and the \<open>TypeError\<close> of a call with an argument of the wrong type.
\<close>

datatype js_error = Error string | SystemError string path | TypeError string

text \<open>How a child process ends: the \<open>close\<close> event with its exit code (\<open>null\<close> when a
  signal killed it), or the \<open>error\<close> event when it could not be spawned.\<close>

datatype proc_result = Close "nat option" | SpawnFailed js_error

text \<open>
  Everything a run does to the outside, in order: lines on standard output and standard
  error (each the list of the arguments of \<open>console.log\<close> or \<open>console.error\<close>; colours
  are left out), the spinner, the confirmation prompt, child processes (command,
  arguments, working directory, and how the process ended), and changes of the file
  system made by the program itself.
\<close>

datatype event =
    ConsoleLog "string list"
  | ConsoleError "string list"
  | SpinnerStart string
  | SpinnerSucceed string
  | SpinnerFail string
  | Prompt string
  | Spawn string "string list" path proc_result
  | FsWriteFile path string
  | FsRemove path

record world =
  fs :: filesystem
  trace :: "event list"

text \<open>\<open>error.message\<close>; the text of an error of the operating system is abridged to its
  code and path.\<close>

fun message :: "js_error \<Rightarrow> string" where
  "message (Error m) = m"
| "message (SystemError code p) = code @ '': /'' @ join p ''/''"
| "message (TypeError m) = m"

text \<open>The result of \<open>validate-npm-package-name\<close>; a missing list is the empty list.\<close>

record validation =
  validForNewPackages :: bool
  errors :: "string list"
  warnings :: "string list"

text \<open>
  What the program cannot decide: the working directory, the answer to the confirmation
  prompt (\<open>None\<close> when the prompt is aborted and \<open>response.continue\<close> is undefined), the
  package-name validator, and what a child process started with a command, arguments and
  working directory does to the file system and how it ends.
\<close>

record env =
  cwd :: path
  confirm :: "bool option"
  validateProjectName :: "string \<Rightarrow> validation"
  exec :: "string \<Rightarrow> string list \<Rightarrow> path \<Rightarrow> filesystem \<Rightarrow> proc_result \<times> filesystem"

subsection \<open>Sequencing\<close>

type_synonym 'a io = "world \<Rightarrow> (js_error + 'a) \<times> world"

definition io_return :: "'a \<Rightarrow> 'a io" where
  "io_return x = (\<lambda>w. (Inr x, w))"

definition io_throw :: "js_error \<Rightarrow> 'a io" where
  "io_throw e = (\<lambda>w. (Inl e, w))"

definition io_bind :: "'a io \<Rightarrow> ('a \<Rightarrow> 'b io) \<Rightarrow> 'b io" where
  "io_bind m f = (\<lambda>w. case m w of (Inl e, w') \<Rightarrow> (Inl e, w') | (Inr x, w') \<Rightarrow> f x w')"

definition io_then :: "unit io \<Rightarrow> 'b io \<Rightarrow> 'b io" where
  "io_then m n = io_bind m (\<lambda>_. n)"

text \<open>\<open>try { m } catch (error) { h(error) }\<close>\<close>

definition io_catch :: "'a io \<Rightarrow> (js_error \<Rightarrow> 'a io) \<Rightarrow> 'a io" where
  "io_catch m h = (\<lambda>w. case m w of (Inl e, w') \<Rightarrow> h e w' | (Inr x, w') \<Rightarrow> (Inr x, w'))"

definition emit :: "event \<Rightarrow> unit io" where
  "emit e = (\<lambda>w. (Inr (), w\<lparr>trace := trace w @ [e]\<rparr>))"

fun emit_all :: "event list \<Rightarrow> unit io" where
  "emit_all [] = io_return ()"
| "emit_all (e # es) = io_then (emit e) (emit_all es)"

subsection \<open>The template catalogue\<close>

text \<open>The four texts of the object literal \<open>templates\<close> in \<open>generateAppTemplate\<close>.\<close>

definition template_basic :: string where
  \<open>template_basic =
     ''import reactLogo from './assets/react.svg'\<newline>'' @
     ''import viteLogo from '/vite.svg'\<newline>'' @
     ''\<newline>'' @
     ''function App() {\<newline>'' @
     ''  return (\<newline>'' @
     ''    <div className="min-h-screen bg-gray-100 flex items-center justify-center">\<newline>'' @
     ''      <div className="text-center">\<newline>'' @
     ''        <div className="flex justify-center space-x-4 mb-8">\<newline>'' @
     ''          <a href="https://vitejs.dev" target="_blank" rel="noopener noreferrer">\<newline>'' @
     ''            <img src={viteLogo} className="h-16 w-16 hover:animate-spin" alt="Vite logo" />\<newline>'' @
     ''          </a>\<newline>'' @
     ''          <a href="https://react.dev" target="_blank" rel="noopener noreferrer">\<newline>'' @
     ''            <img src={reactLogo} className="h-16 w-16 hover:animate-spin" alt="React logo" />\<newline>'' @
     ''          </a>\<newline>'' @
     ''        </div>\<newline>'' @
     ''        <h1 className="text-4xl font-bold text-gray-900 mb-4">\<newline>'' @
     ''          Welcome to <span className="text-blue-600">ReVite</span>\<newline>'' @
     ''        </h1>\<newline>'' @
     ''        <p className="text-lg text-gray-600 mb-8">\<newline>'' @
     ''          React + Vite + Tailwind CSS\<newline>'' @
     ''        </p>\<newline>'' @
     ''        <div className="space-x-4">\<newline>'' @
     ''          <button className="bg-blue-600 hover:bg-blue-700 text-white font-bold py-2 px-4 rounded transition duration-200">\<newline>'' @
     ''            Get Started\<newline>'' @
     ''          </button>\<newline>'' @
     ''          <button className="bg-gray-200 hover:bg-gray-300 text-gray-800 font-bold py-2 px-4 rounded transition duration-200">\<newline>'' @
     ''            Learn More\<newline>'' @
     ''          </button>\<newline>'' @
     ''        </div>\<newline>'' @
     ''      </div>\<newline>'' @
     ''    </div>\<newline>'' @
     ''  )\<newline>'' @
     ''}\<newline>'' @
     ''\<newline>'' @
     ''export default App''\<close>

definition template_dashboard :: string where
  \<open>template_dashboard =
     ''function App() {\<newline>'' @
     ''  return (\<newline>'' @
     ''    <div className="min-h-screen bg-gray-50">\<newline>'' @
     ''      {/* Header */}\<newline>'' @
     ''      <header className="bg-white shadow-sm border-b border-gray-200">\<newline>'' @
     ''        <div className="max-w-7xl mx-auto px-4 sm:px-6 lg:px-8">\<newline>'' @
     ''          <div className="flex justify-between items-center py-6">\<newline>'' @
     ''            <div className="flex items-center">\<newline>'' @
     ''              <h1 className="text-2xl font-bold text-gray-900">Dashboard</h1>\<newline>'' @
     ''            </div>\<newline>'' @
     ''            <div className="flex items-center space-x-4">\<newline>'' @
     ''              <button className="bg-blue-600 hover:bg-blue-700 text-white px-4 py-2 rounded-md text-sm font-medium">\<newline>'' @
     ''                New Project\<newline>'' @
     ''              </button>\<newline>'' @
     ''            </div>\<newline>'' @
     ''          </div>\<newline>'' @
     ''        </div>\<newline>'' @
     ''      </header>\<newline>'' @
     ''\<newline>'' @
     ''      {/* Main Content */}\<newline>'' @
     ''      <main className="max-w-7xl mx-auto py-6 sm:px-6 lg:px-8">\<newline>'' @
     ''        {/* Stats */}\<newline>'' @
     ''        <div className="grid grid-cols-1 gap-5 sm:grid-cols-2 lg:grid-cols-3 mb-8">\<newline>'' @
     ''          <div className="bg-white overflow-hidden shadow rounded-lg">\<newline>'' @
     ''            <div className="p-5">\<newline>'' @
     ''              <div className="flex items-center">\<newline>'' @
     ''                <div className="flex-shrink-0">\<newline>'' @
     ''                  <div className="w-8 h-8 bg-blue-500 rounded-md flex items-center justify-center">\<newline>'' @
     ''                    <span className="text-white font-bold">P</span>\<newline>'' @
     ''                  </div>\<newline>'' @
     ''                </div>\<newline>'' @
     ''                <div className="ml-5 w-0 flex-1">\<newline>'' @
     ''                  <dl>\<newline>'' @
     ''                    <dt className="text-sm font-medium text-gray-500 truncate">Total Projects</dt>\<newline>'' @
     ''                    <dd className="text-lg font-medium text-gray-900">12</dd>\<newline>'' @
     ''                  </dl>\<newline>'' @
     ''                </div>\<newline>'' @
     ''              </div>\<newline>'' @
     ''            </div>\<newline>'' @
     ''          </div>\<newline>'' @
     ''          <div className="bg-white overflow-hidden shadow rounded-lg">\<newline>'' @
     ''            <div className="p-5">\<newline>'' @
     ''              <div className="flex items-center">\<newline>'' @
     ''                <div className="flex-shrink-0">\<newline>'' @
     ''                  <div className="w-8 h-8 bg-green-500 rounded-md flex items-center justify-center">\<newline>'' @
     ''                    <span className="text-white font-bold">A</span>\<newline>'' @
     ''                  </div>\<newline>'' @
     ''                </div>\<newline>'' @
     ''                <div className="ml-5 w-0 flex-1">\<newline>'' @
     ''                  <dl>\<newline>'' @
     ''                    <dt className="text-sm font-medium text-gray-500 truncate">Active</dt>\<newline>'' @
     ''                    <dd className="text-lg font-medium text-gray-900">8</dd>\<newline>'' @
     ''                  </dl>\<newline>'' @
     ''                </div>\<newline>'' @
     ''              </div>\<newline>'' @
     ''            </div>\<newline>'' @
     ''          </div>\<newline>'' @
     ''          <div className="bg-white overflow-hidden shadow rounded-lg">\<newline>'' @
     ''            <div className="p-5">\<newline>'' @
     ''              <div className="flex items-center">\<newline>'' @
     ''                <div className="flex-shrink-0">\<newline>'' @
     ''                  <div className="w-8 h-8 bg-yellow-500 rounded-md flex items-center justify-center">\<newline>'' @
     ''                    <span className="text-white font-bold">C</span>\<newline>'' @
     ''                  </div>\<newline>'' @
     ''                </div>\<newline>'' @
     ''                <div className="ml-5 w-0 flex-1">\<newline>'' @
     ''                  <dl>\<newline>'' @
     ''                    <dt className="text-sm font-medium text-gray-500 truncate">Completed</dt>\<newline>'' @
     ''                    <dd className="text-lg font-medium text-gray-900">4</dd>\<newline>'' @
     ''                  </dl>\<newline>'' @
     ''                </div>\<newline>'' @
     ''              </div>\<newline>'' @
     ''            </div>\<newline>'' @
     ''          </div>\<newline>'' @
     ''        </div>\<newline>'' @
     ''\<newline>'' @
     ''        {/* Content Area */}\<newline>'' @
     ''        <div className="bg-white shadow rounded-lg">\<newline>'' @
     ''          <div className="px-4 py-5 sm:p-6">\<newline>'' @
     ''            <h3 className="text-lg leading-6 font-medium text-gray-900 mb-4">Recent Activity</h3>\<newline>'' @
     ''            <div className="space-y-4">\<newline>'' @
     ''              <div className="flex items-center justify-between p-4 bg-gray-50 rounded-lg">\<newline>'' @
     ''                <div>\<newline>'' @
     ''                  <p className="text-sm font-medium text-gray-900">Project Alpha</p>\<newline>'' @
     ''                  <p className="text-sm text-gray-500">Updated 2 hours ago</p>\<newline>'' @
     ''                </div>\<newline>'' @
     ''                <span className="inline-flex items-center px-2.5 py-0.5 rounded-full text-xs font-medium bg-green-100 text-green-800">\<newline>'' @
     ''                  Active\<newline>'' @
     ''                </span>\<newline>'' @
     ''              </div>\<newline>'' @
     ''              <div className="flex items-center justify-between p-4 bg-gray-50 rounded-lg">\<newline>'' @
     ''                <div>\<newline>'' @
     ''                  <p className="text-sm font-medium text-gray-900">Project Beta</p>\<newline>'' @
     ''                  <p className="text-sm text-gray-500">Updated 1 day ago</p>\<newline>'' @
     ''                </div>\<newline>'' @
     ''                <span className="inline-flex items-center px-2.5 py-0.5 rounded-full text-xs font-medium bg-yellow-100 text-yellow-800">\<newline>'' @
     ''                  In Progress\<newline>'' @
     ''                </span>\<newline>'' @
     ''              </div>\<newline>'' @
     ''            </div>\<newline>'' @
     ''          </div>\<newline>'' @
     ''        </div>\<newline>'' @
     ''      </main>\<newline>'' @
     ''    </div>\<newline>'' @
     ''  )\<newline>'' @
     ''}\<newline>'' @
     ''\<newline>'' @
     ''export default App''\<close>

definition template_landing :: string where
  \<open>template_landing =
     ''function App() {\<newline>'' @
     ''  return (\<newline>'' @
     ''    <div className="min-h-screen bg-white">\<newline>'' @
     ''      {/* Navigation */}\<newline>'' @
     ''      <nav className="bg-white shadow-sm">\<newline>'' @
     ''        <div className="max-w-7xl mx-auto px-4 sm:px-6 lg:px-8">\<newline>'' @
     ''          <div className="flex justify-between items-center py-6">\<newline>'' @
     ''            <div className="flex items-center">\<newline>'' @
     ''              <span className="text-2xl font-bold text-blue-600">ReVite</span>\<newline>'' @
     ''            </div>\<newline>'' @
     ''            <div className="hidden md:flex items-center space-x-8">\<newline>'' @
     ''              <a href="#features" className="text-gray-500 hover:text-gray-900">Features</a>\<newline>'' @
     ''              <a href="#pricing" className="text-gray-500 hover:text-gray-900">Pricing</a>\<newline>'' @
     ''              <a href="#about" className="text-gray-500 hover:text-gray-900">About</a>\<newline>'' @
     ''              <button className="bg-blue-600 hover:bg-blue-700 text-white px-4 py-2 rounded-md">\<newline>'' @
     ''                Get Started\<newline>'' @
     ''              </button>\<newline>'' @
     ''            </div>\<newline>'' @
     ''          </div>\<newline>'' @
     ''        </div>\<newline>'' @
     ''      </nav>\<newline>'' @
     ''\<newline>'' @
     ''      {/* Hero Section */}\<newline>'' @
     ''      <section className="bg-gradient-to-br from-blue-50 to-indigo-100">\<newline>'' @
     ''        <div className="max-w-7xl mx-auto px-4 sm:px-6 lg:px-8 py-24">\<newline>'' @
     ''          <div className="text-center">\<newline>'' @
     ''            <h1 className="text-4xl tracking-tight font-extrabold text-gray-900 sm:text-5xl md:text-6xl">\<newline>'' @
     ''              <span className="block">Build faster with</span>\<newline>'' @
     ''              <span className="block text-blue-600">React + Vite + Tailwind</span>\<newline>'' @
     ''            </h1>\<newline>'' @
     ''            <p className="mt-3 max-w-md mx-auto text-base text-gray-500 sm:text-lg md:mt-5 md:text-xl md:max-w-3xl">\<newline>'' @
     ''              Create modern React applications with the power of Vite and the beauty of Tailwind CSS. \<newline>'' @
     ''              Get started in seconds, not hours.\<newline>'' @
     ''            </p>\<newline>'' @
     ''            <div className="mt-5 max-w-md mx-auto sm:flex sm:justify-center md:mt-8">\<newline>'' @
     ''              <div className="rounded-md shadow">\<newline>'' @
     ''                <button className="w-full flex items-center justify-center px-8 py-3 border border-transparent text-base font-medium rounded-md text-white bg-blue-600 hover:bg-blue-700 md:py-4 md:text-lg md:px-10">\<newline>'' @
     ''                  Get Started\<newline>'' @
     ''                </button>\<newline>'' @
     ''              </div>\<newline>'' @
     ''              <div className="mt-3 rounded-md shadow sm:mt-0 sm:ml-3">\<newline>'' @
     ''                <button className="w-full flex items-center justify-center px-8 py-3 border border-transparent text-base font-medium rounded-md text-blue-600 bg-white hover:bg-gray-50 md:py-4 md:text-lg md:px-10">\<newline>'' @
     ''                  Learn More\<newline>'' @
     ''                </button>\<newline>'' @
     ''              </div>\<newline>'' @
     ''            </div>\<newline>'' @
     ''          </div>\<newline>'' @
     ''        </div>\<newline>'' @
     ''      </section>\<newline>'' @
     ''\<newline>'' @
     ''      {/* Features Section */}\<newline>'' @
     ''      <section id="features" className="h-[45vh] flex items-center justify-center py-16 bg-white">\<newline>'' @
     ''        <div className="max-w-7xl mx-auto px-4 sm:px-6 lg:px-8">\<newline>'' @
     ''          <div className="text-center">\<newline>'' @
     ''            <h2 className="text-3xl font-extrabold text-gray-900">Features</h2>\<newline>'' @
     ''            <p className="mt-4 text-lg text-gray-500">Everything you need to build modern web applications</p>\<newline>'' @
     ''          </div>\<newline>'' @
     ''          <div className="mt-12 grid grid-cols-1 gap-8 sm:grid-cols-2 lg:grid-cols-3">\<newline>'' @
     ''            <div className="text-center">\<newline>'' @
     ''              <div className="flex items-center justify-center h-12 w-12 rounded-md bg-blue-500 text-white mx-auto">\<newline>'' @
     ''                <span className="font-bold">'' @ [CHR 0xE2, CHR 0x9A, CHR 0xA1] @ ''</span>\<newline>'' @
     ''              </div>\<newline>'' @
     ''              <h3 className="mt-4 text-lg font-medium text-gray-900">Lightning Fast</h3>\<newline>'' @
     ''              <p className="mt-2 text-base text-gray-500">Powered by Vite for instant hot reload and optimized builds</p>\<newline>'' @
     ''            </div>\<newline>'' @
     ''            <div className="text-center">\<newline>'' @
     ''              <div className="flex items-center justify-center h-12 w-12 rounded-md bg-blue-500 text-white mx-auto">\<newline>'' @
     ''                <span className="font-bold">'' @ [CHR 0xF0, CHR 0x9F, CHR 0x8E, CHR 0xA8] @ ''</span>\<newline>'' @
     ''              </div>\<newline>'' @
     ''              <h3 className="mt-4 text-lg font-medium text-gray-900">Beautiful Design</h3>\<newline>'' @
     ''              <p className="mt-2 text-base text-gray-500">Tailwind CSS for rapid UI development and consistent styling</p>\<newline>'' @
     ''            </div>\<newline>'' @
     ''            <div className="text-center">\<newline>'' @
     ''              <div className="flex items-center justify-center h-12 w-12 rounded-md bg-blue-500 text-white mx-auto">\<newline>'' @
     ''                <span className="font-bold">'' @ [CHR 0xE2, CHR 0x9A, CHR 0x9B, CHR 0xEF, CHR 0xB8, CHR 0x8F] @ ''</span>\<newline>'' @
     ''              </div>\<newline>'' @
     ''              <h3 className="mt-4 text-lg font-medium text-gray-900">Modern React</h3>\<newline>'' @
     ''              <p className="mt-2 text-base text-gray-500">Latest React features with TypeScript support</p>\<newline>'' @
     ''            </div>\<newline>'' @
     ''          </div>\<newline>'' @
     ''        </div>\<newline>'' @
     ''      </section>\<newline>'' @
     ''\<newline>'' @
     ''      {/* Footer */}\<newline>'' @
     ''      <footer className="bg-gray-50 mt-2">\<newline>'' @
     ''        <div className="max-w-7xl mx-auto py-12 px-4 sm:px-6 lg:px-8">\<newline>'' @
     ''          <div className="text-center text-gray-500">\<newline>'' @
     ''            <p>&copy; 2024 ReVite. Built with React + Vite + Tailwind CSS.</p>\<newline>'' @
     ''          </div>\<newline>'' @
     ''        </div>\<newline>'' @
     ''      </footer>\<newline>'' @
     ''    </div>\<newline>'' @
     ''  )\<newline>'' @
     ''}\<newline>'' @
     ''\<newline>'' @
     ''export default App''\<close>

definition template_blog :: string where
  \<open>template_blog =
     ''function App() {\<newline>'' @
     ''  const posts = [\<newline>'' @
     ''    {\<newline>'' @
     ''      id: 1,\<newline>'' @
     ''      title: "Getting Started with React + Vite + Tailwind",\<newline>'' @
     ''      excerpt: "Learn how to build modern web applications with this powerful combination of tools.",\<newline>'' @
     ''      date: "Mar 16, 2024",\<newline>'' @
     ''      readTime: "5 min read"\<newline>'' @
     ''    },\<newline>'' @
     ''    {\<newline>'' @
     ''      id: 2,\<newline>'' @
     ''      title: "Advanced Tailwind CSS Techniques",\<newline>'' @
     ''      excerpt: "Discover advanced patterns and techniques for building beautiful UIs with Tailwind CSS.",\<newline>'' @
     ''      date: "Mar 12, 2024",\<newline>'' @
     ''      readTime: "8 min read"\<newline>'' @
     ''    },\<newline>'' @
     ''    {\<newline>'' @
     ''      id: 3,\<newline>'' @
     ''      title: "Vite: The Next Generation Build Tool",\<newline>'' @
     ''      excerpt: "Why Vite is revolutionizing the way we build and develop web applications.",\<newline>'' @
     ''      date: "Mar 8, 2024",\<newline>'' @
     ''      readTime: "6 min read"\<newline>'' @
     ''    }\<newline>'' @
     ''  ];\<newline>'' @
     ''\<newline>'' @
     ''  return (\<newline>'' @
     ''    <div className="min-h-screen bg-gray-50">\<newline>'' @
     ''      {/* Header */}\<newline>'' @
     ''      <header className="bg-white shadow-sm">\<newline>'' @
     ''        <div className="max-w-4xl mx-auto h-[80px] flex items-center justify-between px-4 sm:px-6 lg:px-8 ">\<newline>'' @
     ''          <div>\<newline>'' @
     ''            <h1 className="text-3xl font-bold text-gray-900">My Blog</h1>\<newline>'' @
     ''          </div>\<newline>'' @
     ''          <nav className="hidden md:flex space-x-8">\<newline>'' @
     ''            <a href="#" className="text-gray-500 hover:text-gray-900">Home</a>\<newline>'' @
     ''            <a href="#" className="text-gray-500 hover:text-gray-900">About</a>\<newline>'' @
     ''            <a href="#" className="text-gray-500 hover:text-gray-900">Contact</a>\<newline>'' @
     ''          </nav>\<newline>'' @
     ''        </div>\<newline>'' @
     ''      </header>\<newline>'' @
     ''\<newline>'' @
     ''      {/* Main Content */}\<newline>'' @
     ''      <main className="max-w-4xl mx-auto px-4 sm:px-6 lg:px-8 py-12 h-[calc(100vh-233px)]">\<newline>'' @
     ''        {/* Featured Post */}\<newline>'' @
     ''        <article className="bg-white rounded-lg shadow-sm overflow-hidden mb-12">\<newline>'' @
     ''          <div className="p-8">\<newline>'' @
     ''            <div className="flex items-center text-sm text-gray-500 mb-4">\<newline>'' @
     ''              <span className="bg-blue-100 text-blue-800 px-2 py-1 rounded-full text-xs font-medium mr-3">\<newline>'' @
     ''                Featured\<newline>'' @
     ''              </span>\<newline>'' @
     ''              <span>Mar 16, 2024</span>\<newline>'' @
     ''              <span className="mx-2">'' @ [CHR 0xE2, CHR 0x80, CHR 0xA2] @ ''</span>\<newline>'' @
     ''              <span>5 min read</span>\<newline>'' @
     ''            </div>\<newline>'' @
     ''            <h2 className="text-3xl font-bold text-gray-900 mb-4">\<newline>'' @
     ''              Getting Started with React + Vite + Tailwind\<newline>'' @
     ''            </h2>\<newline>'' @
     ''            <p className="text-gray-600 text-lg mb-6">\<newline>'' @
     ''              Learn how to build modern web applications with this powerful combination of tools. \<newline>'' @
     ''              We'll cover everything from setup to deployment, including best practices and common patterns.\<newline>'' @
     ''            </p>\<newline>'' @
     ''            <button className="text-blue-600 hover:text-blue-800 font-medium">\<newline>'' @
     ''              Read more '' @ [CHR 0xE2, CHR 0x86, CHR 0x92] @ ''\<newline>'' @
     ''            </button>\<newline>'' @
     ''          </div>\<newline>'' @
     ''        </article>\<newline>'' @
     ''\<newline>'' @
     ''        {/* Blog Posts Grid */}\<newline>'' @
     ''        <div className="grid gap-8 md:grid-cols-2">\<newline>'' @
     ''          {posts.slice(1).map((post) => (\<newline>'' @
     ''            <article key={post.id} className="bg-white rounded-lg shadow-sm overflow-hidden">\<newline>'' @
     ''              <div className="p-6">\<newline>'' @
     ''                <div className="flex items-center text-sm text-gray-500 mb-3">\<newline>'' @
     ''                  <span>{post.date}</span>\<newline>'' @
     ''                  <span className="mx-2">'' @ [CHR 0xE2, CHR 0x80, CHR 0xA2] @ ''</span>\<newline>'' @
     ''                  <span>{post.readTime}</span>\<newline>'' @
     ''                </div>\<newline>'' @
     ''                <h3 className="text-xl font-semibold text-gray-900 mb-3">\<newline>'' @
     ''                  {post.title}\<newline>'' @
     ''                </h3>\<newline>'' @
     ''                <p className="text-gray-600 mb-4">\<newline>'' @
     ''                  {post.excerpt}\<newline>'' @
     ''                </p>\<newline>'' @
     ''                <button className="text-blue-600 hover:text-blue-800 font-medium text-sm">\<newline>'' @
     ''                  Read more '' @ [CHR 0xE2, CHR 0x86, CHR 0x92] @ ''\<newline>'' @
     ''                </button>\<newline>'' @
     ''              </div>\<newline>'' @
     ''            </article>\<newline>'' @
     ''          ))}\<newline>'' @
     ''        </div>\<newline>'' @
     ''\<newline>'' @
     ''        {/* Newsletter Signup */}\<newline>'' @
     ''        <div className="bg-blue-50 rounded-lg p-8 mt-12 text-center">\<newline>'' @
     ''          <h3 className="text-2xl font-bold text-gray-900 mb-4">Stay Updated</h3>\<newline>'' @
     ''          <p className="text-gray-600 mb-6">Get the latest posts delivered right to your inbox</p>\<newline>'' @
     ''          <div className="max-w-md mx-auto flex gap-4">\<newline>'' @
     ''            <input\<newline>'' @
     ''              type="email"\<newline>'' @
     ''              placeholder="Enter your email"\<newline>'' @
     ''              className="flex-1 px-4 py-2 border border-gray-300 rounded-md focus:outline-none focus:ring-2 focus:ring-blue-500"\<newline>'' @
     ''            />\<newline>'' @
     ''            <button className="bg-blue-600 hover:bg-blue-700 text-white px-6 py-2 rounded-md font-medium">\<newline>'' @
     ''              Subscribe\<newline>'' @
     ''            </button>\<newline>'' @
     ''          </div>\<newline>'' @
     ''        </div>\<newline>'' @
     ''      </main>\<newline>'' @
     ''\<newline>'' @
     ''      {/* Footer */}\<newline>'' @
     ''      <footer className="bg-white border-t border-gray-200 mt-16 h-[80px]">\<newline>'' @
     ''        <div className="max-w-4xl mx-auto px-4 sm:px-6 lg:px-8 py-8">\<newline>'' @
     ''          <div className="text-center text-gray-500">\<newline>'' @
     ''            <p>&copy; 2024 My Blog. Built with React + Vite + Tailwind CSS.</p>\<newline>'' @
     ''          </div>\<newline>'' @
     ''        </div>\<newline>'' @
     ''      </footer>\<newline>'' @
     ''    </div>\<newline>'' @
     ''  )\<newline>'' @
     ''}\<newline>'' @
     ''\<newline>'' @
     ''export default App''\<close>

definition templates :: "(string \<times> string) list" where
  "templates =
     [(''basic'', template_basic), (''dashboard'', template_dashboard),
      (''landing'', template_landing), (''blog'', template_blog)]"

text \<open>\<open>return templates[templateType] || templates.basic\<close>\<close>

definition generateAppTemplate :: "string \<Rightarrow> js_value" where
  "generateAppTemplate templateType =
     (if truthy (js_get templates templateType) then js_get templates templateType
      else js_get templates ''basic'')"

subsection \<open>File system operations\<close>

text \<open>
  The operations of \<open>fs-extra\<close> the program calls. An operation fails with the error code
  the shape of the file system gives; only successful changes are recorded in the trace.
\<close>

definition fs_readdir :: "path \<Rightarrow> string list io" where
  "fs_readdir p = (\<lambda>w.
     case fs w p of
       Some (Dir names) \<Rightarrow> (Inr names, w)
     | Some (File text) \<Rightarrow> (Inl (SystemError ''ENOTDIR'' p), w)
     | None \<Rightarrow> (Inl (SystemError ''ENOENT'' p), w))"

definition fs_pathExists :: "path \<Rightarrow> bool io" where
  "fs_pathExists p = (\<lambda>w. (Inr (fs w p \<noteq> None), w))"

definition fs_readFile :: "path \<Rightarrow> string io" where
  "fs_readFile p = (\<lambda>w.
     case fs w p of
       Some (File text) \<Rightarrow> (Inr text, w)
     | Some (Dir names) \<Rightarrow> (Inl (SystemError ''EISDIR'' p), w)
     | None \<Rightarrow> (Inl (SystemError ''ENOENT'' p), w))"

text \<open>
  \<open>fs.writeFile(p, data)\<close> creates or replaces the file \<open>p\<close> in an existing directory and
  enters its name there. Data that is not a string is refused.
\<close>

definition fs_writeFile :: "path \<Rightarrow> js_value \<Rightarrow> unit io" where
  "fs_writeFile p data = (\<lambda>w.
     case data of
       JSString text \<Rightarrow>
         (case fs w p of
            Some (Dir names) \<Rightarrow> (Inl (SystemError ''EISDIR'' p), w)
          | _ \<Rightarrow>
            (case fs w (path_dirname p) of
               Some (Dir names) \<Rightarrow>
                 (Inr (),
                  w\<lparr>fs := (fs w)(path_dirname p \<mapsto> Dir (List.insert (path_basename p) names),
                                   p \<mapsto> File text),
                    trace := trace w @ [FsWriteFile p text]\<rparr>)
             | Some (File other) \<Rightarrow> (Inl (SystemError ''ENOTDIR'' p), w)
             | None \<Rightarrow> (Inl (SystemError ''ENOENT'' p), w)))
     | _ \<Rightarrow> (Inl (TypeError ''ERR_INVALID_ARG_TYPE''), w))"

text \<open>\<open>fs.remove(p)\<close> of fs-extra removes \<open>p\<close> and everything below it.\<close>

definition fs_remove :: "path \<Rightarrow> unit io" where
  "fs_remove p = (\<lambda>w.
     (Inr (),
      w\<lparr>fs := (\<lambda>q. if prefix p q then None
                   else if q = path_dirname p then
                     (case fs w q of
                        Some (Dir names) \<Rightarrow> Some (Dir (removeAll (path_basename p) names))
                      | other \<Rightarrow> other)
                   else fs w q),
        trace := trace w @ [FsRemove p]\<rparr>))"

subsection \<open>Child processes\<close>

text \<open>The exit code as \<open>${code}\<close> prints it.\<close>

definition show_code :: "nat option \<Rightarrow> string" where
  "show_code code = (case code of Some n \<Rightarrow> string_of_nat n | None \<Rightarrow> ''null'')"

text \<open>The command line a failed command is reported with: \<open>${command} ${args.join(' ')}\<close>.\<close>

definition command_line :: "string \<Rightarrow> string list \<Rightarrow> string" where
  "command_line command args = command @ '' '' @ join args '' ''"

text \<open>
  \<open>spawn(command, args, {cwd, shell: true, stdio: 'inherit'})\<close> and the wait for its
  \<open>close\<close> or \<open>error\<close> event.
\<close>

definition spawn :: "env \<Rightarrow> string \<Rightarrow> string list \<Rightarrow> path \<Rightarrow> proc_result io" where
  "spawn e command args dir = (\<lambda>w.
     case exec e command args dir (fs w) of
       (result, files) \<Rightarrow>
         (Inr result, w\<lparr>fs := files, trace := trace w @ [Spawn command args dir result]\<rparr>))"

definition runCommand :: "env \<Rightarrow> string \<Rightarrow> string list \<Rightarrow> path \<Rightarrow> unit io" where
  \<open>runCommand e command args dir =
     io_bind (spawn e command args dir) (\<lambda>result.
       case result of
         Close code \<Rightarrow>
           if code \<noteq> Some 0 then
             io_throw (Error (''Command "'' @ command_line command args
                              @ ''" failed with exit code '' @ show_code code))
           else io_return ()
       | SpawnFailed error \<Rightarrow> io_throw error)\<close>

definition createViteProject :: "env \<Rightarrow> path \<Rightarrow> string \<Rightarrow> string \<Rightarrow> unit io" where
  "createViteProject e projectPath viteTemplate projectName =
     (let targetName = (if projectPath = cwd e then ''.'' else projectName);
          args = [''create-vite@latest'', targetName, ''--template'', viteTemplate, ''--yes'']
      in io_bind (spawn e ''npx'' args (path_dirname projectPath)) (\<lambda>result.
           case result of
             Close code \<Rightarrow>
               if code \<noteq> Some 0 then
                 io_throw (Error (''Vite creation failed with exit code '' @ show_code code
                   @ ''. Please check your internet connection and try again.''))
               else io_return ()
           | SpawnFailed error \<Rightarrow> io_throw error))"

definition installDependencies :: "env \<Rightarrow> path \<Rightarrow> unit io" where
  "installDependencies e projectPath = runCommand e ''npm'' [''install''] projectPath"

subsection \<open>The Tailwind stage\<close>

definition importAnchor :: string where
  "importAnchor = ''import { defineConfig } from 'vite'' @ [CHR 0x27]"

definition importReplacement :: string where
  "importReplacement =
     ''import { defineConfig } from 'vite'' @ [CHR 0x27]
     @ ''\<newline>import tailwindcss from '@tailwindcss/vite'' @ [CHR 0x27]"

definition pluginsAnchor :: string where
  "pluginsAnchor = ''plugins: [react()]''"

definition pluginsReplacement :: string where
  "pluginsReplacement = ''plugins: [react(), tailwindcss()]''"

definition tailwindImports :: string where
  \<open>tailwindImports = ''@import "tailwindcss";\<newline>''\<close>

text \<open>
  Lines 539 to 554 of \<open>installTailwind\<close>: the two replacements on the text of the Vite
  configuration. Both branches of the test on \<open>isTypeScript\<close> are in the source.
\<close>

definition patchViteConfig :: "bool \<Rightarrow> string \<Rightarrow> string" where
  "patchViteConfig isTypeScript viteConfig =
     js_replace
       (if isTypeScript then js_replace viteConfig importAnchor importReplacement
        else js_replace viteConfig importAnchor importReplacement)
       pluginsAnchor pluginsReplacement"

definition viteConfigPath :: "path \<Rightarrow> bool \<Rightarrow> path" where
  "viteConfigPath projectPath isTypeScript =
     path_join projectPath [if isTypeScript then ''vite.config.ts'' else ''vite.config.js'']"

definition cssPath :: "path \<Rightarrow> path" where
  "cssPath projectPath = path_join projectPath [''src/index.css'']"

definition appPath :: "path \<Rightarrow> bool \<Rightarrow> path" where
  "appPath projectPath isTypeScript =
     path_join projectPath [''src'', if isTypeScript then ''App.tsx'' else ''App.jsx'']"

definition appCssPath :: "path \<Rightarrow> path" where
  "appCssPath projectPath = path_join projectPath [''src/App.css'']"

definition installTailwind :: "env \<Rightarrow> path \<Rightarrow> bool \<Rightarrow> string \<Rightarrow> unit io" where
  "installTailwind e projectPath isTypeScript templateType =
     io_then (runCommand e ''npm'' [''install'', ''tailwindcss'', ''@tailwindcss/vite''] projectPath)
    (io_bind (fs_readFile (viteConfigPath projectPath isTypeScript)) (\<lambda>viteConfig.
     io_then (fs_writeFile (viteConfigPath projectPath isTypeScript)
                (JSString (patchViteConfig isTypeScript viteConfig)))
    (io_then (fs_writeFile (cssPath projectPath) (JSString tailwindImports))
    (io_then (fs_writeFile (appPath projectPath isTypeScript) (generateAppTemplate templateType))
    (io_bind (fs_pathExists (appCssPath projectPath)) (\<lambda>present.
       if present then fs_remove (appCssPath projectPath) else io_return ()))))))"

subsection \<open>createProject\<close>

text \<open>
  The options Commander hands to the action: \<open>--template\<close> (default \<open>basic\<close>),
  \<open>--typescript\<close>, and \<open>tailwind\<close>, which is \<open>false\<close> only after \<open>--no-tailwind\<close>.
\<close>

record options =
  template :: string
  typescript :: bool
  tailwind :: bool

definition validTemplates :: "string list" where
  "validTemplates = [''basic'', ''dashboard'', ''landing'', ''blog'']"

text \<open>A path as it is printed.\<close>

definition path_string :: "path \<Rightarrow> string" where
  "path_string p = ''/'' @ join p ''/''"

text \<open>
  Lines 43 to 61: the target is the working directory. The result is the project name and
  path, or \<open>None\<close> where the source returns from \<open>createProject\<close>.
\<close>

definition createProject_cwd :: "env \<Rightarrow> (string \<times> path) option io" where
  "createProject_cwd e =
     io_bind (fs_readdir (cwd e)) (\<lambda>files.
       let relevantFiles = filter (\<lambda>file. \<not> startsWith file ''.'') files in
       if length relevantFiles > 0 then
         io_then (emit (Prompt ''Current directory is not empty. Continue anyway?''))
           (if confirm e \<noteq> Some True then
              io_then (emit (ConsoleLog [''Operation cancelled.''])) (io_return None)
            else io_return (Some (path_basename (cwd e), cwd e)))
       else io_return (Some (path_basename (cwd e), cwd e)))"

text \<open>Lines 63 to 76: the target is a new directory named by the argument.\<close>

definition createProject_named :: "env \<Rightarrow> string \<Rightarrow> (string \<times> path) option io" where
  \<open>createProject_named e projectDirectory =
     (let validation = validateProjectName e projectDirectory in
      if \<not> validForNewPackages validation then
        io_then (emit_all
                   ([ConsoleError [''Invalid project name:'']]
                    @ map (\<lambda>err. ConsoleError [''  '' @ [CHR 0xE2, CHR 0x80, CHR 0xA2] @ '' '' @ err])
                        (errors validation)
                    @ map (\<lambda>warn. ConsoleError [''  '' @ [CHR 0xE2, CHR 0x80, CHR 0xA2] @ '' '' @ warn])
                        (warnings validation)))
          (io_return None)
      else
        io_bind (fs_pathExists (path_resolve (cwd e) projectDirectory)) (\<lambda>present.
          if present then
            io_then (emit (ConsoleError [''Directory "'' @ projectDirectory @ ''" already exists.'']))
              (io_return None)
          else io_return (Some (projectDirectory, path_resolve (cwd e) projectDirectory))))\<close>

text \<open>\<open>!projectDirectory || projectDirectory === '.'\<close>: no argument, the empty string or a dot.\<close>

definition targetsCwd :: "string option \<Rightarrow> bool" where
  "targetsCwd projectDirectory =
     (case projectDirectory of None \<Rightarrow> True | Some d \<Rightarrow> d = [] \<or> d = ''.'')"

text \<open>Lines 32 to 77: the checks before anything is created.\<close>

definition createProject_resolve ::
  "env \<Rightarrow> string option \<Rightarrow> options \<Rightarrow> (string \<times> path) option io" where
  \<open>createProject_resolve e projectDirectory opts =
     (if template opts \<notin> set validTemplates then
        io_then (emit (ConsoleError [''Invalid template "'' @ template opts
                   @ ''". Available templates: '' @ join validTemplates '', '']))
          (io_return None)
      else
        (case projectDirectory of
           None \<Rightarrow> createProject_cwd e
         | Some d \<Rightarrow> if d = [] \<or> d = ''.'' then createProject_cwd e else createProject_named e d))\<close>

text \<open>The lines printed after a successful run (lines 101 to 123).\<close>

definition successMessages :: "string option \<Rightarrow> string \<Rightarrow> path \<Rightarrow> event list" where
  "successMessages projectDirectory projectName projectPath =
     [ConsoleLog [],
      ConsoleLog [''Success! Created'', projectName, ''at'', path_string projectPath],
      ConsoleLog [],
      ConsoleLog [''Inside that directory, you can run several commands:''],
      ConsoleLog [],
      ConsoleLog [''  npm run dev''],
      ConsoleLog [''    Starts the development server.''],
      ConsoleLog [],
      ConsoleLog [''  npm run build''],
      ConsoleLog [''    Bundles the app into static files for production.''],
      ConsoleLog [],
      ConsoleLog [''  npm run preview''],
      ConsoleLog [''    Preview the production build locally.''],
      ConsoleLog [],
      ConsoleLog [''We suggest that you begin by typing:''],
      ConsoleLog []]
     @ (if \<not> targetsCwd projectDirectory then [ConsoleLog [''  cd '' @ projectName]] else [])
     @ [ConsoleLog [''  npm run dev''],
        ConsoleLog [],
        ConsoleLog [''Happy coding! '' @ [CHR 0xF0, CHR 0x9F, CHR 0x9A, CHR 0x80]]]"

text \<open>Lines 79 to 128: the generator, the Tailwind stage when asked for, the installation.\<close>

definition createProject_materialize ::
  "env \<Rightarrow> string option \<Rightarrow> options \<Rightarrow> string \<Rightarrow> path \<Rightarrow> unit io" where
  "createProject_materialize e projectDirectory opts projectName projectPath =
     io_then (emit_all
        [ConsoleLog [''Creating a new React + Vite + Tailwind app in '' @ path_string projectPath],
         ConsoleLog [''Using template: '' @ template opts],
         ConsoleLog []])
     (let viteTemplate = (if typescript opts then ''react-ts'' else ''react'');
          useTailwind = tailwind opts
      in
      io_then (emit (SpinnerStart ''Creating Vite project...''))
        (io_catch
          (io_then (createViteProject e projectPath viteTemplate projectName)
          (io_then (emit (SpinnerSucceed ''Vite project created''))
          (io_then
             (if useTailwind then
                io_then (emit (SpinnerStart ''Installing Tailwind CSS...''))
               (io_then (installTailwind e projectPath (typescript opts) (template opts))
                 (emit (SpinnerSucceed ''Tailwind CSS installed'')))
              else io_return ())
          (io_then (emit (SpinnerStart ''Installing dependencies...''))
          (io_then (installDependencies e projectPath)
          (io_then (emit (SpinnerSucceed ''Dependencies installed''))
            (emit_all (successMessages projectDirectory projectName projectPath))))))))
          (\<lambda>error. io_then (emit (SpinnerFail ''Failed to create project'')) (io_throw error))))"

definition createProject :: "env \<Rightarrow> string option \<Rightarrow> options \<Rightarrow> unit io" where
  "createProject e projectDirectory opts =
     io_bind (createProject_resolve e projectDirectory opts) (\<lambda>target.
       case target of
         None \<Rightarrow> io_return ()
       | Some (projectName, projectPath) \<Rightarrow>
           createProject_materialize e projectDirectory opts projectName projectPath)"

text \<open>
  The action of the command (lines 22 to 29): an error thrown by \<open>createProject\<close> is
  printed and ends the process with status 1; otherwise the process ends by itself, with
  status 0. The result is the exit status and the world the process leaves behind.
\<close>

definition action :: "env \<Rightarrow> string option \<Rightarrow> options \<Rightarrow> world \<Rightarrow> nat \<times> world" where
  "action e projectDirectory opts w =
     (case createProject e projectDirectory opts w of
        (Inl error, w') \<Rightarrow>
          (1, w'\<lparr>trace := trace w' @ [ConsoleError [''Error creating project:'', message error]]\<rparr>)
      | (Inr u, w') \<Rightarrow> (0, w'))"

section \<open>Notions the properties are stated with\<close>

text \<open>The events one invocation adds to the trace.\<close>

definition runEvents :: "env \<Rightarrow> string option \<Rightarrow> options \<Rightarrow> world \<Rightarrow> event list" where
  "runEvents e projectDirectory opts w =
     drop (length (trace w)) (trace (snd (action e projectDirectory opts w)))"

fun isSpawn :: "event \<Rightarrow> bool" where
  "isSpawn (Spawn command args dir result) = True"
| "isSpawn ev = False"


text \<open>A run of \<open>npm\<close> that names one of the Tailwind packages.\<close>

fun isTailwindInstall :: "event \<Rightarrow> bool" where
  "isTailwindInstall (Spawn command args dir result) =
     (command = ''npm'' \<and> (''tailwindcss'' \<in> set args \<or> ''@tailwindcss/vite'' \<in> set args))"
| "isTailwindInstall ev = False"

text \<open>A change of the file system made by the program itself.\<close>

fun isFsChange :: "event \<Rightarrow> bool" where
  "isFsChange (FsWriteFile p text) = True"
| "isFsChange (FsRemove p) = True"
| "isFsChange ev = False"

fun isPrompt :: "event \<Rightarrow> bool" where
  "isPrompt (Prompt question) = True"
| "isPrompt ev = False"

fun isConsoleError :: "event \<Rightarrow> bool" where
  "isConsoleError (ConsoleError args) = True"
| "isConsoleError ev = False"

text \<open>The names of a directory listing that do not start with a dot.\<close>

definition visibleEntries :: "string list \<Rightarrow> string list" where
  "visibleEntries names = filter (\<lambda>name. \<not> startsWith name ''.'') names"

text \<open>
  An invocation with an input error: an unknown template id, or, for a target named by
  the argument, a name the validator rejects or a path that exists already.
\<close>

definition inputError :: "env \<Rightarrow> string option \<Rightarrow> options \<Rightarrow> world \<Rightarrow> bool" where
  "inputError e projectDirectory opts w =
     (template opts \<notin> set validTemplates
      \<or> (case projectDirectory of
            None \<Rightarrow> False
          | Some d \<Rightarrow>
              \<not> targetsCwd projectDirectory
              \<and> (\<not> validForNewPackages (validateProjectName e d)
                   \<or> fs w (path_resolve (cwd e) d) \<noteq> None)))"

text \<open>The arguments the generator is started with.\<close>

definition generatorArgs :: "env \<Rightarrow> options \<Rightarrow> string \<Rightarrow> path \<Rightarrow> string list" where
  "generatorArgs e opts projectName projectPath =
     [''create-vite@latest'', if projectPath = cwd e then ''.'' else projectName,
      ''--template'', if typescript opts then ''react-ts'' else ''react'', ''--yes'']"

text \<open>
  Two facts about an action that compose along \<open>io_bind\<close>: every event it adds satisfies
  a predicate, and it throws whenever a child process it started has failed.
\<close>

definition emits :: "(event \<Rightarrow> bool) \<Rightarrow> 'a io \<Rightarrow> bool" where
  "emits P m = (\<forall>w. \<exists>evs. trace (snd (m w)) = trace w @ evs \<and> list_all P evs)"


subsection \<open>Example inputs\<close>

text \<open>
  A working directory \<open>/home/dev\<close> that holds a hidden directory and one visible file, a
  validator that accepts the name \<open>my-app\<close> only, and child processes that end with code
  0 and leave the files as they are.
\<close>

definition demo_validate :: "string \<Rightarrow> validation" where
  "demo_validate name =
     \<lparr>validForNewPackages = (name = ''my-app''),
      errors = (if name = ''my-app'' then [] else [''name can only contain URL-friendly characters'']),
      warnings = []\<rparr>"

definition demo_env :: env where
  "demo_env =
     \<lparr>cwd = [''home'', ''dev''], confirm = Some False, validateProjectName = demo_validate,
      exec = (\<lambda>command args dir files. (Close (Some 0), files))\<rparr>"

text \<open>The same, with a generator that ends with exit code 1.\<close>

definition failing_env :: env where
  "failing_env =
     demo_env\<lparr>exec := (\<lambda>command args dir files.
        (if command = ''npx'' then Close (Some 1) else Close (Some 0), files))\<rparr>"

definition demo_fs :: filesystem where
  "demo_fs =
     [[] \<mapsto> Dir [''home''],
      [''home''] \<mapsto> Dir [''dev''],
      [''home'', ''dev''] \<mapsto> Dir [''.git'', ''notes.txt''],
      [''home'', ''dev'', ''.git''] \<mapsto> Dir [],
      [''home'', ''dev'', ''notes.txt''] \<mapsto> File ''to do'']"

definition demo_world :: world where
  "demo_world = \<lparr>fs = demo_fs, trace = []\<rparr>"

definition demo_options :: options where
  "demo_options = \<lparr>template = ''dashboard'', typescript = False, tailwind = True\<rparr>"

text \<open>
  A project as the generator leaves it in \<open>/home/dev/my-app\<close>, with the Vite
  configuration under the given file name and with the given text.
\<close>

definition demo_project_path :: path where
  "demo_project_path = [''home'', ''dev'', ''my-app'']"

definition generated_fs :: "string \<Rightarrow> string \<Rightarrow> filesystem" where
  "generated_fs configFile configText =
     demo_fs
       ([''home'', ''dev''] \<mapsto> Dir [''.git'', ''notes.txt'', ''my-app''],
        demo_project_path \<mapsto> Dir [configFile, ''src''],
        demo_project_path @ [configFile] \<mapsto> File configText,
        demo_project_path @ [''src''] \<mapsto> Dir [''index.css'', ''App.css''],
        demo_project_path @ [''src'', ''index.css''] \<mapsto> File '':root { color: black }'',
        demo_project_path @ [''src'', ''App.css''] \<mapsto> File ''#root { margin: 0 }'')"

definition generated_world :: "string \<Rightarrow> string \<Rightarrow> world" where
  "generated_world configFile configText =
     \<lparr>fs = generated_fs configFile configText, trace = []\<rparr>"

text \<open>The configuration the generator writes by default, and one without the two anchors.\<close>

definition default_config :: string where
  "default_config =
     ''import { defineConfig } from 'vite'' @ [CHR 0x27] @ ''\<newline>'' @
     ''import react from '@vitejs/plugin-react'' @ [CHR 0x27] @ ''\<newline>'' @
     ''\<newline>'' @
     ''export default defineConfig({\<newline>'' @
     ''  plugins: [react()],\<newline>'' @
     ''})\<newline>''"


text \<open>
  The Tailwind stage on such a project: for the JavaScript and the TypeScript variant with
  the default configuration, and for a configuration without the anchors.
\<close>

definition demo_js_run :: "(js_error + unit) \<times> world" where
  "demo_js_run = installTailwind demo_env demo_project_path False ''dashboard''
     (generated_world ''vite.config.js'' default_config)"



text \<open>The question of the confirmation prompt, and the message of a failed generator.\<close>

definition promptQuestion :: string where
  "promptQuestion = ''Current directory is not empty. Continue anyway?''"

definition generatorFailureMessage :: "nat option \<Rightarrow> string" where
  "generatorFailureMessage code =
     ''Vite creation failed with exit code '' @ show_code code
     @ ''. Please check your internet connection and try again.''"

definition hidden_only_world :: world where
  "hidden_only_world = \<lparr>fs = demo_fs([''home'', ''dev''] \<mapsto> Dir [''.git'']), trace = []\<rparr>"

definition unknown_template_options :: options where
  "unknown_template_options = \<lparr>template = ''fancy'', typescript = False, tailwind = True\<rparr>"

definition plain_options :: options where
  "plain_options = \<lparr>template = ''basic'', typescript = True, tailwind = False\<rparr>"







section \<open>Properties\<close>

subsection \<open>The template catalogue\<close>

lemma nonempty_append: "xs \<noteq> [] \<Longrightarrow> xs @ ys \<noteq> []"
  by simp

lemma same_append_neq: "ys \<noteq> zs \<Longrightarrow> xs @ ys \<noteq> xs @ zs"
  by simp

lemma differ_append:
  assumes "take n xs \<noteq> take n xs'" and "n \<le> length xs" and "n \<le> length xs'"
  shows "xs @ ys \<noteq> xs' @ zs"
proof
  assume "xs @ ys = xs' @ zs"
  then have "take n (xs @ ys) = take n (xs' @ zs)" by simp
  with assms show False by simp
qed

lemma template_basic_nonempty: "template_basic \<noteq> []"
  unfolding template_basic_def by (rule nonempty_append) simp

lemma template_dashboard_nonempty: "template_dashboard \<noteq> []"
  unfolding template_dashboard_def by (rule nonempty_append) simp

lemma template_landing_nonempty: "template_landing \<noteq> []"
  unfolding template_landing_def by (rule nonempty_append) simp

lemma template_blog_nonempty: "template_blog \<noteq> []"
  unfolding template_blog_def by (rule nonempty_append) simp

text \<open>The basic text starts with an import, the other three with \<open>function App() {\<close>.\<close>

lemma template_basic_dashboard: "template_basic \<noteq> template_dashboard"
  unfolding template_basic_def template_dashboard_def
  by (rule differ_append [where n = 1]) simp_all

lemma template_basic_landing: "template_basic \<noteq> template_landing"
  unfolding template_basic_def template_landing_def
  by (rule differ_append [where n = 1]) simp_all

lemma template_basic_blog: "template_basic \<noteq> template_blog"
  unfolding template_basic_def template_blog_def
  by (rule differ_append [where n = 1]) simp_all

text \<open>Dashboard and landing page agree on two lines and differ in the third, at \<open>bg-\<close>.\<close>

lemma template_dashboard_landing: "template_dashboard \<noteq> template_landing"
  unfolding template_dashboard_def template_landing_def
  apply (rule same_append_neq)
  apply (rule same_append_neq)
  apply (rule differ_append [where n = 37])
    apply simp_all
  done

text \<open>The blog text goes on with \<open>const posts\<close> where the other two have \<open>return (\<close>.\<close>

lemma template_dashboard_blog: "template_dashboard \<noteq> template_blog"
  unfolding template_dashboard_def template_blog_def
  apply (rule same_append_neq)
  apply (rule differ_append [where n = 3])
    apply simp_all
  done

lemma template_landing_blog: "template_landing \<noteq> template_blog"
  unfolding template_landing_def template_blog_def
  apply (rule same_append_neq)
  apply (rule differ_append [where n = 3])
    apply simp_all
  done

lemma templates_distinct:
  "distinct [template_basic, template_dashboard, template_landing, template_blog]"
  using template_basic_dashboard template_basic_landing template_basic_blog
    template_dashboard_landing template_dashboard_blog template_landing_blog
  by simp

text \<open>
  What the lookup does return: the text of each of the four ids, and the basic text for
  every other key that \<open>Object.prototype\<close> does not define.
\<close>

lemma generateAppTemplate_valid:
  "generateAppTemplate ''basic'' = JSString template_basic"
  "generateAppTemplate ''dashboard'' = JSString template_dashboard"
  "generateAppTemplate ''landing'' = JSString template_landing"
  "generateAppTemplate ''blog'' = JSString template_blog"
  by (simp_all add: generateAppTemplate_def js_get_def templates_def template_basic_nonempty
      template_dashboard_nonempty template_landing_nonempty template_blog_nonempty)

lemma generateAppTemplate_fallback:
  assumes "key \<notin> set validTemplates" and "key \<noteq> ''__proto__''"
    and "key \<notin> set objectPrototypeMethods"
  shows "generateAppTemplate key = JSString template_basic"
  using assms
  by (simp add: generateAppTemplate_def js_get_def templates_def validTemplates_def
      objectPrototype_def template_basic_nonempty)

text \<open>
  C7, as claimed: the lookup returns a distinct non-empty text for each of \<open>basic\<close>,
  \<open>dashboard\<close>, \<open>landing\<close> and \<open>blog\<close>, and the basic text for every other string.
  The second half fails for the names an object literal inherits: \<open>templates[templateType]\<close>
  follows the prototype chain, so for \<open>constructor\<close> it finds a function, which is truthy,
  and \<open>|| templates.basic\<close> is never reached. The result is not the basic text.
\<close>

theorem C7_inherited_key_counterexample:
  "''constructor'' \<notin> set validTemplates
   \<and> generateAppTemplate ''constructor'' = JSFunction ''constructor''
   \<and> generateAppTemplate ''constructor'' \<noteq> generateAppTemplate ''basic''"
  by (simp add: generateAppTemplate_def js_get_def templates_def objectPrototype_def
      objectPrototypeMethods_def template_basic_nonempty validTemplates_def)

text \<open>
  C7, amended: the lookup returns a distinct non-empty text for each of the four ids, and
  the basic text for every other string that is not the name of a property of
  \<open>Object.prototype\<close>.
\<close>

theorem C7_generateAppTemplate_lookup:
  "generateAppTemplate ''basic'' = JSString template_basic
   \<and> generateAppTemplate ''dashboard'' = JSString template_dashboard
   \<and> generateAppTemplate ''landing'' = JSString template_landing
   \<and> generateAppTemplate ''blog'' = JSString template_blog
   \<and> distinct [template_basic, template_dashboard, template_landing, template_blog]
   \<and> template_basic \<noteq> [] \<and> template_dashboard \<noteq> []
   \<and> template_landing \<noteq> [] \<and> template_blog \<noteq> []
   \<and> (key \<notin> set validTemplates \<and> key \<noteq> ''__proto__'' \<and> key \<notin> set objectPrototypeMethods
        \<longrightarrow> generateAppTemplate key = generateAppTemplate ''basic'')"
  using generateAppTemplate_valid templates_distinct template_basic_nonempty
    template_dashboard_nonempty template_landing_nonempty template_blog_nonempty
    generateAppTemplate_fallback [of key]
  by simp

theorem C7_generateAppTemplate_lookup_witness:
  "''nope'' \<notin> set validTemplates \<and> ''nope'' \<noteq> ''__proto__''
   \<and> ''nope'' \<notin> set objectPrototypeMethods
   \<and> generateAppTemplate ''nope'' = JSString template_basic
   \<and> generateAppTemplate '''' = JSString template_basic"
proof -
  have a: "''nope'' \<notin> set validTemplates \<and> ''nope'' \<noteq> ''__proto__''
      \<and> ''nope'' \<notin> set objectPrototypeMethods"
    and b: "'''' \<notin> set validTemplates \<and> '''' \<noteq> ''__proto__''
      \<and> '''' \<notin> set objectPrototypeMethods"
    by (simp_all add: validTemplates_def objectPrototypeMethods_def)
  from C7_generateAppTemplate_lookup [of "''nope''"] C7_generateAppTemplate_lookup [of "''''"] a b
  show ?thesis by simp
qed

subsection \<open>Running actions, strings and paths\<close>

lemmas io_defs = io_return_def io_throw_def io_bind_def io_then_def io_catch_def emit_def

lemma emit_all_run: "emit_all evs w = (Inr (), w\<lparr>trace := trace w @ evs\<rparr>)"
  by (induction evs arbitrary: w) (simp_all add: io_defs)

lemma path_simps:
  "viteConfigPath P True = P @ [''vite.config.ts'']"
  "viteConfigPath P False = P @ [''vite.config.js'']"
  "cssPath P = P @ [''src'', ''index.css'']"
  "appPath P True = P @ [''src'', ''App.tsx'']"
  "appPath P False = P @ [''src'', ''App.jsx'']"
  "appCssPath P = P @ [''src'', ''App.css'']"
  by (simp_all add: viteConfigPath_def cssPath_def appPath_def appCssPath_def path_join_def)















lemmas fs_defs = fs_readdir_def fs_pathExists_def fs_readFile_def fs_writeFile_def fs_remove_def


lemma io_bind_InrE:
  assumes "io_bind m f w = (Inr y, w')"
  obtains x w1 where "m w = (Inr x, w1)" and "f x w1 = (Inr y, w')"
  using assms by (auto simp: io_bind_def split: prod.splits sum.splits)

lemma io_then_InrE:
  assumes "io_then m n w = (Inr y, w')"
  obtains w1 where "m w = (Inr (), w1)" and "n w1 = (Inr y, w')"
  using assms by (auto simp: io_then_def elim!: io_bind_InrE)

lemma runCommand_InrD:
  assumes "runCommand e command args dir w = (Inr (), w')"
  shows "exec e command args dir (fs w) = (Close (Some 0), fs w')
    \<and> trace w' = trace w @ [Spawn command args dir (Close (Some 0))]"
  using assms
  by (auto simp: runCommand_def spawn_def io_defs split: prod.splits proc_result.splits if_splits)

lemma fs_readFile_InrD:
  assumes "fs_readFile p w = (Inr text, w')"
  shows "w' = w \<and> fs w p = Some (File text)"
  using assms by (auto simp: fs_readFile_def split: option.splits node.splits)

lemma fs_writeFile_InrE:
  assumes "fs_writeFile p data w = (Inr (), w')"
  obtains content names where "data = JSString content"
    and "fs w (path_dirname p) = Some (Dir names)"
    and "fs w' = (fs w)(path_dirname p \<mapsto> Dir (List.insert (path_basename p) names), p \<mapsto> File content)"
    and "trace w' = trace w @ [FsWriteFile p content]"
  using assms
  by (auto simp: fs_writeFile_def split: js_value.splits option.splits node.splits)

lemma fs_pathExists_run: "fs_pathExists p w = (Inr (fs w p \<noteq> None), w)"
  by (simp add: fs_pathExists_def)

lemma fs_remove_run:
  "fs_remove p w = (Inr (), w')
   \<Longrightarrow> fs w' p = None \<and> (\<forall>q. \<not> prefix p q \<longrightarrow> q \<noteq> path_dirname p \<longrightarrow> fs w' q = fs w q)"
  by (auto simp: fs_remove_def)

lemma path_parent_simps:
  "path_dirname (P @ [a]) = P"
  "path_dirname (P @ [a, b]) = P @ [a]"
  "path_basename (P @ [a]) = a"
  "path_basename (P @ [a, b]) = b"
  by (simp_all add: path_dirname_def path_basename_def butlast_append)

text \<open>What a completed Tailwind stage has read and what it leaves behind.\<close>

lemma installTailwind_complete:
  assumes "installTailwind e P ts t w = (Inr (), w')"
  shows "\<exists>files c blob.
      exec e ''npm'' [''install'', ''tailwindcss'', ''@tailwindcss/vite''] P (fs w)
        = (Close (Some 0), files)
    \<and> files (viteConfigPath P ts) = Some (File c)
    \<and> generateAppTemplate t = JSString blob
    \<and> fs w' (viteConfigPath P ts) = Some (File (patchViteConfig ts c))
    \<and> fs w' (cssPath P) = Some (File tailwindImports)
    \<and> fs w' (appPath P ts) = Some (File blob)
    \<and> fs w' (appCssPath P) = None"
proof -
  from assms obtain w1 w2 w3 w4 w5 c where
    w1: "runCommand e ''npm'' [''install'', ''tailwindcss'', ''@tailwindcss/vite''] P w = (Inr (), w1)"
    and w2: "fs_readFile (viteConfigPath P ts) w1 = (Inr c, w2)"
    and w3: "fs_writeFile (viteConfigPath P ts) (JSString (patchViteConfig ts c)) w2 = (Inr (), w3)"
    and w4: "fs_writeFile (cssPath P) (JSString tailwindImports) w3 = (Inr (), w4)"
    and w5: "fs_writeFile (appPath P ts) (generateAppTemplate t) w4 = (Inr (), w5)"
    and last: "(if fs w5 (appCssPath P) \<noteq> None then fs_remove (appCssPath P) else io_return ()) w5
               = (Inr (), w')"
    unfolding installTailwind_def
    by (elim io_then_InrE io_bind_InrE) (auto simp: fs_pathExists_run)
  from runCommand_InrD [OF w1] fs_readFile_InrD [OF w2]
  have ex: "exec e ''npm'' [''install'', ''tailwindcss'', ''@tailwindcss/vite''] P (fs w)
              = (Close (Some 0), fs w1)"
    and rd: "fs w1 (viteConfigPath P ts) = Some (File c)" and "w2 = w1"
    by simp_all
  from w3 have cfg3: "fs w3 (viteConfigPath P ts) = Some (File (patchViteConfig ts c))"
    by (auto elim!: fs_writeFile_InrE)
  from w4 have css4: "fs w4 (cssPath P) = Some (File tailwindImports)"
    and cfg4: "fs w4 (viteConfigPath P ts) = fs w3 (viteConfigPath P ts)"
    by (cases ts; auto elim!: fs_writeFile_InrE simp: path_simps path_parent_simps)+
  from w5 obtain blob where blob: "generateAppTemplate t = JSString blob"
    and app5: "fs w5 (appPath P ts) = Some (File blob)"
    and css5: "fs w5 (cssPath P) = fs w4 (cssPath P)"
    and cfg5: "fs w5 (viteConfigPath P ts) = fs w4 (viteConfigPath P ts)"
    by (cases ts) (auto elim!: fs_writeFile_InrE simp: path_simps path_parent_simps)
  have "fs w' (appCssPath P) = None \<and> fs w' (cssPath P) = fs w5 (cssPath P)
      \<and> fs w' (appPath P ts) = fs w5 (appPath P ts)
      \<and> fs w' (viteConfigPath P ts) = fs w5 (viteConfigPath P ts)"
  proof (cases "fs w5 (appCssPath P) \<noteq> None")
    case True
    with last have "fs_remove (appCssPath P) w5 = (Inr (), w')" by simp
    from fs_remove_run [OF this] show ?thesis
      by (cases ts; simp add: path_simps path_parent_simps)
  next
    case False
    with last have "w' = w5" by (simp add: io_return_def)
    with False show ?thesis by simp
  qed
  with ex rd cfg3 cfg4 cfg5 css4 css5 blob app5 show ?thesis by simp
qed

lemmas example_defs = demo_env_def demo_validate_def demo_world_def demo_fs_def demo_options_def
  demo_project_path_def generated_world_def generated_fs_def failing_env_def


lemma runCommand_ok:
  "exec e command args dir (fs w) = (Close (Some 0), files)
   \<Longrightarrow> runCommand e command args dir w
       = (Inr (), w\<lparr>fs := files, trace := trace w @ [Spawn command args dir (Close (Some 0))]\<rparr>)"
  by (simp add: runCommand_def spawn_def io_defs)

lemma fs_readFile_ok: "fs w p = Some (File c) \<Longrightarrow> fs_readFile p w = (Inr c, w)"
  by (simp add: fs_readFile_def)

lemma fs_writeFile_ok:
  assumes "\<forall>names. fs w p \<noteq> Some (Dir names)" and "fs w (path_dirname p) = Some (Dir siblings)"
  shows "fs_writeFile p (JSString c) w
       = (Inr (), w\<lparr>fs := (fs w)(path_dirname p \<mapsto> Dir (List.insert (path_basename p) siblings),
                                 p \<mapsto> File c),
                    trace := trace w @ [FsWriteFile p c]\<rparr>)"
  using assms by (auto simp: fs_writeFile_def split: option.splits node.splits)

lemma fs_remove_ok: "\<exists>w'. fs_remove p w = (Inr (), w')"
  by (simp add: fs_remove_def)

text \<open>
  The stage does complete on a project laid out as the generator leaves it: the
  installation succeeds, the configuration is a file in the project directory, \<open>src\<close> is
  a directory, and the catalogue returns a text.
\<close>

lemma installTailwind_runs:
  assumes ex: "exec e ''npm'' [''install'', ''tailwindcss'', ''@tailwindcss/vite''] P (fs w)
                 = (Close (Some 0), files)"
    and cfg: "files (viteConfigPath P ts) = Some (File c)"
    and dir: "files P = Some (Dir entries)"
    and src: "files (P @ [''src'']) = Some (Dir sources)"
    and css: "\<forall>names. files (cssPath P) \<noteq> Some (Dir names)"
    and app: "\<forall>names. files (appPath P ts) \<noteq> Some (Dir names)"
    and blob: "generateAppTemplate t = JSString blob"
  shows "\<exists>w'. installTailwind e P ts t w = (Inr (), w')"
proof -
  let ?cfg = "viteConfigPath P ts"
  define w1 where "w1 = w\<lparr>fs := files, trace := trace w @
    [Spawn ''npm'' [''install'', ''tailwindcss'', ''@tailwindcss/vite''] P (Close (Some 0))]\<rparr>"
  have r1: "runCommand e ''npm'' [''install'', ''tailwindcss'', ''@tailwindcss/vite''] P w = (Inr (), w1)"
    unfolding w1_def by (rule runCommand_ok [OF ex])
  have f1: "fs w1 = files" by (simp add: w1_def)
  have r2: "fs_readFile ?cfg w1 = (Inr c, w1)"
    by (rule fs_readFile_ok) (simp add: f1 cfg)
  have par: "path_dirname ?cfg = P" "path_basename ?cfg = (if ts then ''vite.config.ts'' else ''vite.config.js'')"
    by (cases ts; simp add: path_simps path_parent_simps)+
  obtain w3 where r3: "fs_writeFile ?cfg (JSString (patchViteConfig ts c)) w1 = (Inr (), w3)"
    and f3: "fs w3 = files(P \<mapsto> Dir (List.insert (path_basename ?cfg) entries),
                           ?cfg \<mapsto> File (patchViteConfig ts c))"
    using fs_writeFile_ok [of w1 ?cfg entries "patchViteConfig ts c"]
    by (simp add: f1 cfg dir par)
  obtain w4 where r4: "fs_writeFile (cssPath P) (JSString tailwindImports) w3 = (Inr (), w4)"
    and f4: "fs w4 = (fs w3)(P @ [''src''] \<mapsto> Dir (List.insert ''index.css'' sources),
                             cssPath P \<mapsto> File tailwindImports)"
    using fs_writeFile_ok [of w3 "cssPath P" sources tailwindImports] css src
    by (cases ts; simp add: f3 path_simps path_parent_simps)
  have "\<forall>names. fs w4 (appPath P ts) \<noteq> Some (Dir names)"
    using app by (cases ts; simp add: f4 f3 path_simps)
  moreover have "fs w4 (path_dirname (appPath P ts)) = Some (Dir (List.insert ''index.css'' sources))"
    by (cases ts; simp add: f4 path_simps path_parent_simps)
  ultimately obtain w5 where r5: "fs_writeFile (appPath P ts) (JSString blob) w4 = (Inr (), w5)"
    using fs_writeFile_ok by blast
  obtain w6 where r6: "fs_remove (appCssPath P) w5 = (Inr (), w6)"
    using fs_remove_ok by blast
  show ?thesis
    unfolding installTailwind_def
    by (simp add: io_then_def io_bind_def io_return_def r1 r2 r3 r4 blob r5 fs_pathExists_run r6)
qed

subsection \<open>The Tailwind stage\<close>

lemma demo_js_run_ok: "\<exists>w'. demo_js_run = (Inr (), w')"
  unfolding demo_js_run_def
  by (rule installTailwind_runs [where c = default_config
        and files = "generated_fs ''vite.config.js'' default_config"
        and entries = "[''vite.config.js'', ''src'']" and sources = "[''index.css'', ''App.css'']"])
     (simp_all add: example_defs path_simps generateAppTemplate_valid)









text \<open>
  C9. After a completed Tailwind stage, whatever the template id, \<open>src/index.css\<close> holds
  exactly the line \<open>@import "tailwindcss";\<close> and a newline, the application component
  (\<open>src/App.tsx\<close> with the TypeScript flag, \<open>src/App.jsx\<close> without) holds exactly the
  text the catalogue returns for the id, which for each of the four ids is its own text,
  and \<open>src/App.css\<close> is gone.
\<close>

theorem C9_patch_stage_files:
  assumes "installTailwind e P ts t w = (Inr (), w')"
  shows \<open>fs w' (P @ [''src'', ''index.css'']) = Some (File ''@import "tailwindcss";\<newline>'')
    \<and> (\<exists>blob. generateAppTemplate t = JSString blob
          \<and> fs w' (P @ [''src'', if ts then ''App.tsx'' else ''App.jsx'']) = Some (File blob))
    \<and> (t = ''basic'' \<longrightarrow>
          fs w' (P @ [''src'', if ts then ''App.tsx'' else ''App.jsx'']) = Some (File template_basic))
    \<and> (t = ''dashboard'' \<longrightarrow>
          fs w' (P @ [''src'', if ts then ''App.tsx'' else ''App.jsx'']) = Some (File template_dashboard))
    \<and> (t = ''landing'' \<longrightarrow>
          fs w' (P @ [''src'', if ts then ''App.tsx'' else ''App.jsx'']) = Some (File template_landing))
    \<and> (t = ''blog'' \<longrightarrow>
          fs w' (P @ [''src'', if ts then ''App.tsx'' else ''App.jsx'']) = Some (File template_blog))
    \<and> fs w' (P @ [''src'', ''App.css'']) = None\<close>
  using installTailwind_complete [OF assms]
  by (cases ts) (auto simp: path_simps tailwindImports_def generateAppTemplate_valid)

theorem C9_patch_stage_files_witness:
  \<open>fst demo_js_run = Inr ()
   \<and> fs (snd demo_js_run) [''home'', ''dev'', ''my-app'', ''src'', ''index.css'']
       = Some (File ''@import "tailwindcss";\<newline>'')
   \<and> fs (snd demo_js_run) [''home'', ''dev'', ''my-app'', ''src'', ''App.jsx'']
       = Some (File template_dashboard)
   \<and> fs (snd demo_js_run) [''home'', ''dev'', ''my-app'', ''src'', ''App.css''] = None
   \<and> fs (generated_world ''vite.config.js'' default_config)
        [''home'', ''dev'', ''my-app'', ''src'', ''App.css''] = Some (File ''#root { margin: 0 }'')\<close>
proof -
  from demo_js_run_ok obtain w' where run: "demo_js_run = (Inr (), w')" ..
  have "fst demo_js_run = Inr ()" and "snd demo_js_run = w'" by (simp_all add: run)
  with C9_patch_stage_files [OF run [unfolded demo_js_run_def]] show ?thesis
    by (simp add: demo_project_path_def generated_world_def generated_fs_def)
qed



subsection \<open>The events of an action\<close>

lemma emitsI:
  assumes "\<And>w. \<exists>evs. trace (snd (m w)) = trace w @ evs \<and> list_all P evs"
  shows "emits P m"
  using assms by (simp add: emits_def)

lemma emits_return: "emits P (io_return x)"
  by (simp add: emits_def io_return_def)

lemma emits_throw: "emits P (io_throw err)"
  by (simp add: emits_def io_throw_def)

lemma emits_emit: "P ev \<Longrightarrow> emits P (emit ev)"
  by (simp add: emits_def emit_def)

lemma emits_emit_all: "list_all P evs \<Longrightarrow> emits P (emit_all evs)"
  by (simp add: emits_def emit_all_run)

lemma emits_bind:
  assumes "emits P m" and "\<And>x. emits P (f x)"
  shows "emits P (io_bind m f)"
proof (rule emitsI)
  fix w
  from assms(1) obtain evs1 where m: "trace (snd (m w)) = trace w @ evs1" "list_all P evs1"
    by (auto simp: emits_def)
  show "\<exists>evs. trace (snd (io_bind m f w)) = trace w @ evs \<and> list_all P evs"
  proof (cases "m w")
    case (Pair r w1)
    show ?thesis
    proof (cases r)
      case (Inl err)
      with Pair m show ?thesis by (auto simp: io_bind_def)
    next
      case (Inr x)
      from assms(2) [of x] obtain evs2 where
        "trace (snd (f x w1)) = trace w1 @ evs2" "list_all P evs2"
        by (auto simp: emits_def)
      with Pair Inr m have "trace (snd (io_bind m f w)) = trace w @ (evs1 @ evs2)"
        and "list_all P (evs1 @ evs2)"
        by (simp_all add: io_bind_def)
      then show ?thesis by blast
    qed
  qed
qed

lemma emits_then: "emits P m \<Longrightarrow> emits P n \<Longrightarrow> emits P (io_then m n)"
  by (simp add: io_then_def emits_bind)

lemma emits_catch:
  assumes "emits P m" and "\<And>err. emits P (h err)"
  shows "emits P (io_catch m h)"
proof (rule emitsI)
  fix w
  from assms(1) obtain evs1 where m: "trace (snd (m w)) = trace w @ evs1" "list_all P evs1"
    by (auto simp: emits_def)
  show "\<exists>evs. trace (snd (io_catch m h w)) = trace w @ evs \<and> list_all P evs"
  proof (cases "m w")
    case (Pair r w1)
    show ?thesis
    proof (cases r)
      case (Inr x)
      with Pair m show ?thesis by (auto simp: io_catch_def)
    next
      case (Inl err)
      from assms(2) [of err] obtain evs2 where
        "trace (snd (h err w1)) = trace w1 @ evs2" "list_all P evs2"
        by (auto simp: emits_def)
      with Pair Inl m have "trace (snd (io_catch m h w)) = trace w @ (evs1 @ evs2)"
        and "list_all P (evs1 @ evs2)"
        by (simp_all add: io_catch_def)
      then show ?thesis by blast
    qed
  qed
qed

lemma emits_if: "(c \<Longrightarrow> emits P a) \<Longrightarrow> (\<not> c \<Longrightarrow> emits P b) \<Longrightarrow> emits P (if c then a else b)"
  by simp

lemma emits_fs_readdir: "emits P (fs_readdir p)"
  by (auto simp: emits_def fs_readdir_def split: option.splits node.splits)

lemma emits_fs_pathExists: "emits P (fs_pathExists p)"
  by (simp add: emits_def fs_pathExists_def)

lemma emits_fs_readFile: "emits P (fs_readFile p)"
  by (auto simp: emits_def fs_readFile_def split: option.splits node.splits)

lemma emits_fs_writeFile: "(\<And>c. P (FsWriteFile p c)) \<Longrightarrow> emits P (fs_writeFile p data)"
  by (auto simp: emits_def fs_writeFile_def split: js_value.splits option.splits node.splits)

lemma emits_fs_remove: "P (FsRemove p) \<Longrightarrow> emits P (fs_remove p)"
  by (simp add: emits_def fs_remove_def)

lemma emits_spawn:
  "(\<And>result. P (Spawn command args dir result)) \<Longrightarrow> emits P (spawn e command args dir)"
  by (auto simp: emits_def spawn_def split: prod.splits)

lemma emits_runCommand:
  assumes "\<And>result. P (Spawn command args dir result)"
  shows "emits P (runCommand e command args dir)"
  unfolding runCommand_def
  by (intro emits_bind emits_spawn assms)
     (auto split: proc_result.splits intro: emits_return emits_throw)

lemma emits_createViteProject:
  assumes "\<And>args dir result. P (Spawn ''npx'' args dir result)"
  shows "emits P (createViteProject e projectPath viteTemplate projectName)"
  unfolding createViteProject_def Let_def
  by (intro emits_bind emits_spawn assms)
     (auto split: proc_result.splits intro: emits_return emits_throw)

lemma emits_installTailwind:
  assumes "\<And>ev. isSpawn ev \<or> isFsChange ev \<Longrightarrow> P ev"
  shows "emits P (installTailwind e projectPath isTypeScript templateType)"
  unfolding installTailwind_def
  by (intro emits_bind emits_then emits_runCommand emits_fs_readFile emits_fs_writeFile
      emits_fs_pathExists emits_if emits_fs_remove emits_return assms) simp_all


lemma emits_installDependencies:
  "(\<And>dir result. P (Spawn ''npm'' [''install''] dir result))
   \<Longrightarrow> emits P (installDependencies e projectPath)"
  unfolding installDependencies_def by (rule emits_runCommand)

lemma plain_successMessages:
  assumes "\<And>ev. \<not> isSpawn ev \<Longrightarrow> \<not> isFsChange ev \<Longrightarrow> \<not> isPrompt ev \<Longrightarrow> P ev"
  shows "list_all P (successMessages projectDirectory projectName projectPath)"
  by (simp add: successMessages_def assms)

text \<open>
  The second half of \<open>createProject\<close> adds console and spinner events, the two or three
  child processes, and, with Tailwind only, changes of the file system.
\<close>

lemma emits_materialize:
  assumes plain: "\<And>ev. \<not> isSpawn ev \<Longrightarrow> \<not> isFsChange ev \<Longrightarrow> \<not> isPrompt ev \<Longrightarrow> P ev"
    and gen: "\<And>args dir result. P (Spawn ''npx'' args dir result)"
    and inst: "\<And>dir result. P (Spawn ''npm'' [''install''] dir result)"
    and tw: "\<And>ev. tailwind opts \<Longrightarrow> isSpawn ev \<or> isFsChange ev \<Longrightarrow> P ev"
  shows "emits P (createProject_materialize e projectDirectory opts projectName projectPath)"
  unfolding createProject_materialize_def Let_def
  by (intro emits_then emits_catch emits_if emits_emit_all emits_emit emits_return emits_throw
      emits_createViteProject emits_installTailwind emits_installDependencies
      plain_successMessages [of P, OF plain] gen inst)
     (simp_all add: plain tw)

text \<open>The first half adds console events and the prompt only.\<close>

lemma emits_cwd:
  assumes "\<And>ev. \<not> isSpawn ev \<Longrightarrow> \<not> isFsChange ev \<Longrightarrow> P ev"
  shows "emits P (createProject_cwd e)"
  unfolding createProject_cwd_def Let_def
  by (intro emits_bind emits_fs_readdir emits_if emits_then emits_emit emits_return)
     (simp_all add: assms)

lemma emits_named:
  assumes "\<And>ev. \<not> isSpawn ev \<Longrightarrow> \<not> isFsChange ev \<Longrightarrow> \<not> isPrompt ev \<Longrightarrow> P ev"
  shows "emits P (createProject_named e d)"
  unfolding createProject_named_def Let_def
  by (intro emits_bind emits_fs_pathExists emits_if emits_then emits_emit emits_emit_all emits_return)
     (simp_all add: assms list.pred_map comp_def list.pred_True)

lemma emits_resolve:
  assumes "\<And>ev. \<not> isSpawn ev \<Longrightarrow> \<not> isFsChange ev \<Longrightarrow> P ev"
  shows "emits P (createProject_resolve e projectDirectory opts)"
  unfolding createProject_resolve_def
  by (cases projectDirectory)
     (auto intro!: emits_then emits_emit emits_return emits_cwd emits_named assms)

lemma emits_createProject:
  assumes plain: "\<And>ev. \<not> isSpawn ev \<Longrightarrow> \<not> isFsChange ev \<Longrightarrow> P ev"
    and gen: "\<And>args dir result. P (Spawn ''npx'' args dir result)"
    and inst: "\<And>dir result. P (Spawn ''npm'' [''install''] dir result)"
    and tw: "\<And>ev. tailwind opts \<Longrightarrow> isSpawn ev \<or> isFsChange ev \<Longrightarrow> P ev"
  shows "emits P (createProject e projectDirectory opts)"
  unfolding createProject_def
proof (rule emits_bind)
  show "emits P (createProject_resolve e projectDirectory opts)"
    by (rule emits_resolve) (rule plain)
next
  fix target :: "(string \<times> path) option"
  have plain': "\<And>ev. \<not> isSpawn ev \<Longrightarrow> \<not> isFsChange ev \<Longrightarrow> \<not> isPrompt ev \<Longrightarrow> P ev"
    by (rule plain)
  show "emits P (case target of None \<Rightarrow> io_return ()
      | Some (projectName, projectPath) \<Rightarrow>
          createProject_materialize e projectDirectory opts projectName projectPath)"
    by (cases target) (auto intro: emits_return emits_materialize [OF plain' gen inst tw])
qed

text \<open>From the events of \<open>createProject\<close> to the events of the invocation.\<close>

lemma action_trace:
  "trace (snd (action e d opts w)) =
     trace (snd (createProject e d opts w))
     @ (case fst (createProject e d opts w) of
          Inl err \<Rightarrow> [ConsoleError [''Error creating project:'', message err]]
        | Inr u \<Rightarrow> [])"
  by (simp add: action_def split: prod.splits sum.splits)

lemma runEvents_all:
  assumes "emits P (createProject e d opts)" and "\<And>args. P (ConsoleError args)"
  shows "list_all P (runEvents e d opts w)"
proof -
  from assms(1) obtain evs where "trace (snd (createProject e d opts w)) = trace w @ evs"
    and "list_all P evs"
    by (auto simp: emits_def)
  then show ?thesis
    by (simp add: runEvents_def action_trace assms(2) split: sum.splits)
qed

subsection \<open>Failed child processes\<close>













subsection \<open>The paths through the checks\<close>

lemma createProject_split:
  "createProject e d opts w =
     (case createProject_resolve e d opts w of
        (Inl err, w1) \<Rightarrow> (Inl err, w1)
      | (Inr None, w1) \<Rightarrow> (Inr (), w1)
      | (Inr (Some (projectName, projectPath)), w1) \<Rightarrow>
          createProject_materialize e d opts projectName projectPath w1)"
  by (simp add: createProject_def io_bind_def io_return_def split: prod.splits sum.splits option.splits)

lemma resolve_unknown_template:
  assumes "template opts \<notin> set validTemplates"
  shows \<open>createProject_resolve e d opts w
           = (Inr None, w\<lparr>trace := trace w @ [ConsoleError [''Invalid template "'' @ template opts
                   @ ''". Available templates: '' @ join validTemplates '', '']]\<rparr>)\<close>
  using assms by (simp add: createProject_resolve_def io_defs)

lemma resolve_cwd:
  assumes "template opts \<in> set validTemplates" and "targetsCwd d"
  shows "createProject_resolve e d opts = createProject_cwd e"
  using assms by (auto simp: createProject_resolve_def targetsCwd_def split: option.splits)

lemma resolve_named:
  assumes "template opts \<in> set validTemplates" and "\<not> targetsCwd d"
  shows "\<exists>name. d = Some name \<and> createProject_resolve e d opts = createProject_named e name"
  using assms by (auto simp: createProject_resolve_def targetsCwd_def split: option.splits)

lemma cwd_listed:
  assumes "fs w (cwd e) = Some (Dir names)"
  shows "createProject_cwd e w =
     (if visibleEntries names \<noteq> [] then
        (if confirm e \<noteq> Some True then
           (Inr None, w\<lparr>trace := trace w @ [Prompt promptQuestion, ConsoleLog [''Operation cancelled.'']]\<rparr>)
         else (Inr (Some (path_basename (cwd e), cwd e)), w\<lparr>trace := trace w @ [Prompt promptQuestion]\<rparr>))
      else (Inr (Some (path_basename (cwd e), cwd e)), w))"
  using assms
  by (simp add: createProject_cwd_def fs_readdir_def io_defs visibleEntries_def promptQuestion_def)

lemma cwd_unlisted:
  assumes "\<forall>names. fs w (cwd e) \<noteq> Some (Dir names)"
  shows "\<exists>err. createProject_cwd e w = (Inl err, w)"
  using assms
  by (auto simp: createProject_cwd_def fs_readdir_def io_defs split: option.splits node.splits)

lemma named_invalid:
  assumes "\<not> validForNewPackages (validateProjectName e name)"
  shows "\<exists>errs. list_all isConsoleError errs \<and> errs \<noteq> []
     \<and> createProject_named e name w = (Inr None, w\<lparr>trace := trace w @ errs\<rparr>)"
proof -
  let ?errs = "[ConsoleError [''Invalid project name:'']]
      @ map (\<lambda>err. ConsoleError [''  '' @ [CHR 0xE2, CHR 0x80, CHR 0xA2] @ '' '' @ err])
          (errors (validateProjectName e name))
      @ map (\<lambda>warn. ConsoleError [''  '' @ [CHR 0xE2, CHR 0x80, CHR 0xA2] @ '' '' @ warn])
          (warnings (validateProjectName e name))"
  from assms have "createProject_named e name w = (Inr None, w\<lparr>trace := trace w @ ?errs\<rparr>)"
    by (simp add: createProject_named_def Let_def io_defs emit_all_run)
  moreover have "list_all isConsoleError ?errs" and "?errs \<noteq> []"
    by (simp_all add: list.pred_map comp_def list.pred_True)
  ultimately show ?thesis by blast
qed

lemma named_present:
  assumes "validForNewPackages (validateProjectName e name)"
    and "fs w (path_resolve (cwd e) name) \<noteq> None"
  shows \<open>createProject_named e name w
           = (Inr None, w\<lparr>trace := trace w @ [ConsoleError [''Directory "'' @ name
                @ ''" already exists.'']]\<rparr>)\<close>
  using assms by (auto simp: createProject_named_def Let_def io_defs fs_pathExists_def)

lemma named_fresh:
  assumes "validForNewPackages (validateProjectName e name)"
    and "fs w (path_resolve (cwd e) name) = None"
  shows "createProject_named e name w = (Inr (Some (name, path_resolve (cwd e) name)), w)"
  using assms by (simp add: createProject_named_def Let_def io_defs fs_pathExists_def)

text \<open>An input error ends \<open>createProject\<close> normally, with nothing but lines on standard error.\<close>

lemma input_error_run:
  assumes "inputError e d opts w"
  shows "\<exists>errs. list_all isConsoleError errs \<and> errs \<noteq> []
     \<and> createProject e d opts w = (Inr (), w\<lparr>trace := trace w @ errs\<rparr>)"
proof (cases "template opts \<in> set validTemplates")
  case False
  let ?errs = \<open>[ConsoleError [''Invalid template "'' @ template opts
      @ ''". Available templates: '' @ join validTemplates '', '']]\<close>
  have "createProject e d opts w = (Inr (), w\<lparr>trace := trace w @ ?errs\<rparr>)"
    by (simp add: createProject_split resolve_unknown_template [OF False])
  then show ?thesis by (intro exI [of _ ?errs]) simp
next
  case True
  with assms obtain name where d: "d = Some name" and cw: "\<not> targetsCwd d"
    and bad: "\<not> validForNewPackages (validateProjectName e name)
              \<or> fs w (path_resolve (cwd e) name) \<noteq> None"
    by (auto simp: inputError_def split: option.splits)
  from resolve_named [OF True cw, of e] d
  have res: "createProject_resolve e d opts = createProject_named e name" by simp
  show ?thesis
  proof (cases "validForNewPackages (validateProjectName e name)")
    case False
    from named_invalid [OF False, of w] obtain errs where
      "list_all isConsoleError errs" "errs \<noteq> []"
      and run: "createProject_named e name w = (Inr None, w\<lparr>trace := trace w @ errs\<rparr>)"
      by blast
    moreover have "createProject e d opts w = (Inr (), w\<lparr>trace := trace w @ errs\<rparr>)"
      by (simp add: createProject_split res run)
    ultimately show ?thesis by blast
  next
    case valid: True
    with bad have "fs w (path_resolve (cwd e) name) \<noteq> None" by simp
    then have present: "fs w (path_resolve (cwd e) name) \<noteq> None" .
    let ?errs = \<open>[ConsoleError [''Directory "'' @ name @ ''" already exists.'']]\<close>
    have "createProject e d opts w = (Inr (), w\<lparr>trace := trace w @ ?errs\<rparr>)"
      by (simp add: createProject_split res named_present [OF valid present])
    then show ?thesis by (intro exI [of _ ?errs]) simp
  qed
qed

lemma runEvents_normal:
  "createProject e d opts w = (Inr (), w\<lparr>trace := trace w @ evs\<rparr>)
   \<Longrightarrow> action e d opts w = (0, w\<lparr>trace := trace w @ evs\<rparr>) \<and> runEvents e d opts w = evs"
  by (simp add: action_def runEvents_def)

lemma runEvents_from:
  assumes "trace (snd (createProject e d opts w)) = trace w @ evs"
  shows "runEvents e d opts w =
     evs @ (case fst (createProject e d opts w) of
              Inl err \<Rightarrow> [ConsoleError [''Error creating project:'', message err]]
            | Inr u \<Rightarrow> [])"
  using assms by (simp add: runEvents_def action_trace)

lemma materialize_no_prompt:
  "emits (\<lambda>ev. \<not> isPrompt ev) (createProject_materialize e d opts projectName projectPath)"
  by (rule emits_materialize) (auto elim: isPrompt.elims)

lemma declined_run:
  assumes "template opts \<in> set validTemplates" and "targetsCwd d"
    and "fs w (cwd e) = Some (Dir names)" and "visibleEntries names \<noteq> []"
    and "confirm e \<noteq> Some True"
  shows "createProject e d opts w
     = (Inr (), w\<lparr>trace := trace w @ [Prompt promptQuestion, ConsoleLog [''Operation cancelled.'']]\<rparr>)"
  using assms by (simp add: createProject_split resolve_cwd cwd_listed)

lemma prompt_shown:
  assumes valid: "template opts \<in> set validTemplates" and cw: "targetsCwd d"
    and dir: "fs w (cwd e) = Some (Dir names)" and vis: "visibleEntries names \<noteq> []"
  shows "list_ex isPrompt (runEvents e d opts w)"
proof (cases "confirm e \<noteq> Some True")
  case True
  from runEvents_normal [OF declined_run [OF valid cw dir vis True]] show ?thesis by simp
next
  case False
  let ?w1 = "w\<lparr>trace := trace w @ [Prompt promptQuestion]\<rparr>"
  from False have run: "createProject e d opts w =
      createProject_materialize e d opts (path_basename (cwd e)) (cwd e) ?w1"
    by (simp add: createProject_split resolve_cwd [OF valid cw] cwd_listed [OF dir] vis)
  from materialize_no_prompt [of e d opts "path_basename (cwd e)" "cwd e"]
  obtain evs where "trace (snd (createProject e d opts w)) = trace ?w1 @ evs"
    unfolding emits_def run by blast
  then have "trace (snd (createProject e d opts w)) = trace w @ (Prompt promptQuestion # evs)"
    by simp
  from runEvents_from [OF this] show ?thesis by simp
qed

lemma not_prompt_mono: "list_all isConsoleError evs \<Longrightarrow> list_all (\<lambda>ev. \<not> isPrompt ev) evs"
  by (induction evs) (auto elim: isConsoleError.elims)

lemma no_prompt_otherwise:
  assumes "\<not> (template opts \<in> set validTemplates \<and> targetsCwd d
              \<and> (\<exists>names. fs w (cwd e) = Some (Dir names) \<and> visibleEntries names \<noteq> []))"
  shows "list_all (\<lambda>ev. \<not> isPrompt ev) (runEvents e d opts w)"
proof (cases "template opts \<in> set validTemplates")
  case False
  then have "inputError e d opts w" by (simp add: inputError_def)
  from input_error_run [OF this] obtain errs where "list_all isConsoleError errs"
    and "createProject e d opts w = (Inr (), w\<lparr>trace := trace w @ errs\<rparr>)" by blast
  with runEvents_normal [of e d opts w errs] show ?thesis by (simp add: not_prompt_mono)
next
  case valid: True
  show ?thesis
  proof (cases "targetsCwd d")
    case False
    from resolve_named [OF valid False, of e] obtain name where
      res: "createProject_resolve e d opts = createProject_named e name" by blast
    have "emits (\<lambda>ev. \<not> isPrompt ev) (createProject e d opts)"
      unfolding createProject_def res
      by (intro emits_bind emits_named)
         (auto split: option.splits intro: emits_return materialize_no_prompt)
    then show ?thesis by (rule runEvents_all) simp
  next
    case cw: True
    note res = resolve_cwd [OF valid cw, of e]
    show ?thesis
    proof (cases "\<exists>names. fs w (cwd e) = Some (Dir names)")
      case False
      with cwd_unlisted [of w e] obtain err where "createProject_cwd e w = (Inl err, w)" by auto
      then have "createProject e d opts w = (Inl err, w)"
        by (simp add: createProject_split res)
      then show ?thesis by (simp add: runEvents_def action_def)
    next
      case True
      then obtain names where dir: "fs w (cwd e) = Some (Dir names)" by blast
      with assms valid cw have "visibleEntries names = []" by auto
      with dir have run: "createProject e d opts w =
          createProject_materialize e d opts (path_basename (cwd e)) (cwd e) w"
        by (simp add: createProject_split res cwd_listed)
      from materialize_no_prompt [of e d opts "path_basename (cwd e)" "cwd e"]
      obtain evs where "trace (snd (createProject e d opts w)) = trace w @ evs"
        and "list_all (\<lambda>ev. \<not> isPrompt ev) evs"
        unfolding emits_def run by blast
      with runEvents_from [of e d opts w evs] show ?thesis
        by (simp split: sum.splits)
    qed
  qed
qed

lemma prompt_iff:
  "list_ex isPrompt (runEvents e d opts w) \<longleftrightarrow>
     template opts \<in> set validTemplates \<and> targetsCwd d
     \<and> (\<exists>names. fs w (cwd e) = Some (Dir names) \<and> visibleEntries names \<noteq> [])"
  using prompt_shown [of opts d w e] no_prompt_otherwise [of opts d w e]
  by (auto simp: list_all_iff list_ex_iff)

lemma generator_failure_run:
  assumes "createProject_resolve e d opts w = (Inr (Some (projectName, projectPath)), w1)"
    and "exec e ''npx'' (generatorArgs e opts projectName projectPath)
           (path_dirname projectPath) (fs w1) = (Close code, files)"
    and "code \<noteq> Some 0"
  shows "createProject e d opts w =
     (Inl (Error (generatorFailureMessage code)),
      w1\<lparr>fs := files,
         trace := trace w1 @
           [ConsoleLog [''Creating a new React + Vite + Tailwind app in '' @ path_string projectPath],
            ConsoleLog [''Using template: '' @ template opts],
            ConsoleLog [],
            SpinnerStart ''Creating Vite project...'',
            Spawn ''npx'' (generatorArgs e opts projectName projectPath)
              (path_dirname projectPath) (Close code),
            SpinnerFail ''Failed to create project'']\<rparr>)"
  using assms
  by (simp add: createProject_split createProject_materialize_def createViteProject_def
      generatorArgs_def generatorFailureMessage_def spawn_def Let_def io_defs emit_all_run)

lemma demo_resolve_named:
  "createProject_resolve failing_env (Some ''my-app'') demo_options demo_world
     = (Inr (Some (''my-app'', demo_project_path)), demo_world)"
  "createProject_resolve demo_env (Some ''my-app'') plain_options demo_world
     = (Inr (Some (''my-app'', demo_project_path)), demo_world)"
  by (simp_all add: createProject_resolve_def createProject_named_def Let_def io_defs
      fs_pathExists_def example_defs plain_options_def validTemplates_def path_resolve_def)

lemma demo_generator_fails:
  "exec failing_env ''npx'' (generatorArgs failing_env demo_options ''my-app'' demo_project_path)
     (path_dirname demo_project_path) (fs demo_world) = (Close (Some 1), demo_fs)"
  by (simp add: example_defs)

lemma without_tailwind_fs:
  assumes "\<not> tailwind opts"
    and "createProject_resolve e d opts w = (Inr (Some (projectName, projectPath)), w1)"
    and "exec e ''npx'' (generatorArgs e opts projectName projectPath)
           (path_dirname projectPath) (fs w1) = (Close (Some 0), files)"
  shows "fs (snd (createProject e d opts w)) = snd (exec e ''npm'' [''install''] projectPath files)"
proof -
  obtain result files2 where inst: "exec e ''npm'' [''install''] projectPath files = (result, files2)"
    by (cases "exec e ''npm'' [''install''] projectPath files")
  with assms show ?thesis
    by (cases result)
       (simp_all add: createProject_split createProject_materialize_def createViteProject_def
         installDependencies_def runCommand_def generatorArgs_def spawn_def Let_def io_defs emit_all_run)
qed

lemma action_fs: "fs (snd (action e d opts w)) = fs (snd (createProject e d opts w))"
  by (simp add: action_def split: prod.splits sum.splits)



subsection \<open>Successful runs\<close>























subsection \<open>The claims about whole invocations\<close>




text \<open>
  C2, as claimed: when the generator ends with a nonzero exit code, the run stops before
  the Tailwind stage and the installation, exits with status 1, and reports the failing
  command line and the exit code. The last part fails: \<open>createViteProject\<close> has a message
  of its own, which gives the exit code but not the command line.
\<close>

theorem C2_generator_message_counterexample:
  "fst (exec failing_env ''npx'' [''create-vite@latest'', ''my-app'', ''--template'', ''react'', ''--yes'']
          [''home'', ''dev''] (fs demo_world)) = Close (Some 1)
   \<and> fst (createProject failing_env (Some ''my-app'') demo_options demo_world)
       = Inl (Error ''Vite creation failed with exit code 1. Please check your internet connection and try again.'')
   \<and> \<not> includes_str
         ''Vite creation failed with exit code 1. Please check your internet connection and try again.''
         (command_line ''npx'' [''create-vite@latest'', ''my-app'', ''--template'', ''react'', ''--yes''])"
proof -
  have "fst (exec failing_env ''npx'' [''create-vite@latest'', ''my-app'', ''--template'', ''react'', ''--yes'']
          [''home'', ''dev''] (fs demo_world)) = Close (Some 1)"
    by (simp add: example_defs)
  moreover
  have "fst (createProject failing_env (Some ''my-app'') demo_options demo_world)
       = Inl (Error ''Vite creation failed with exit code 1. Please check your internet connection and try again.'')"
    by (simp add: generator_failure_run [OF demo_resolve_named(1) demo_generator_fails]
        generatorFailureMessage_def show_code_def digit_def)
  moreover have "\<not> includes_str
         ''Vite creation failed with exit code 1. Please check your internet connection and try again.''
         (command_line ''npx'' [''create-vite@latest'', ''my-app'', ''--template'', ''react'', ''--yes''])"
    by (simp add: includes_str_def command_line_def)
  ultimately show ?thesis by blast
qed

text \<open>
  C2, amended: when the generator ends with a nonzero exit code, the process exits with
  status 1; after the generator nothing runs but the failure mark of the spinner and the
  error line, so the file system is as the generator left it; and the error line reads
  \<open>Vite creation failed with exit code\<close>, the code, and the advice to check the
  connection.
\<close>

theorem C2_generator_failure:
  assumes "createProject_resolve e d opts w = (Inr (Some (projectName, projectPath)), w1)"
    and "exec e ''npx'' (generatorArgs e opts projectName projectPath)
           (path_dirname projectPath) (fs w1) = (Close code, files)"
    and "code \<noteq> Some 0"
  shows "action e d opts w =
     (1, w1\<lparr>fs := files,
            trace := trace w1 @
              [ConsoleLog [''Creating a new React + Vite + Tailwind app in '' @ path_string projectPath],
               ConsoleLog [''Using template: '' @ template opts],
               ConsoleLog [],
               SpinnerStart ''Creating Vite project...'',
               Spawn ''npx'' (generatorArgs e opts projectName projectPath)
                 (path_dirname projectPath) (Close code),
               SpinnerFail ''Failed to create project'',
               ConsoleError [''Error creating project:'',
                 ''Vite creation failed with exit code '' @ show_code code
                 @ ''. Please check your internet connection and try again.'']]\<rparr>)"
  using generator_failure_run [OF assms]
  by (simp add: action_def generatorFailureMessage_def)

theorem C2_generator_failure_witness:
  "fst (action failing_env (Some ''my-app'') demo_options demo_world) = 1
   \<and> fs (snd (action failing_env (Some ''my-app'') demo_options demo_world)) = demo_fs
   \<and> last (trace (snd (action failing_env (Some ''my-app'') demo_options demo_world)))
       = ConsoleError [''Error creating project:'',
           ''Vite creation failed with exit code 1. Please check your internet connection and try again.'']"
  by (simp add: C2_generator_failure [OF demo_resolve_named(1) demo_generator_fails]
      show_code_def digit_def)

text \<open>
  C4. An invocation with an input error starts no child process and changes no file: all
  it adds to the trace are lines on standard error, and the file system after it is the
  file system before it.
\<close>

theorem C4_input_error_no_effects:
  assumes "inputError e d opts w"
  shows "fs (snd (action e d opts w)) = fs w
    \<and> runEvents e d opts w \<noteq> []
    \<and> list_all isConsoleError (runEvents e d opts w)
    \<and> list_all (\<lambda>ev. \<not> isSpawn ev \<and> \<not> isFsChange ev) (runEvents e d opts w)"
proof -
  from input_error_run [OF assms] obtain errs where errs: "list_all isConsoleError errs" "errs \<noteq> []"
    and run: "createProject e d opts w = (Inr (), w\<lparr>trace := trace w @ errs\<rparr>)" by blast
  have "list_all (\<lambda>ev. \<not> isSpawn ev \<and> \<not> isFsChange ev) errs"
    using errs(1) by (induction errs) (auto elim: isConsoleError.elims)
  with runEvents_normal [OF run] errs show ?thesis by simp
qed

theorem C4_input_error_no_effects_witness:
  "inputError demo_env (Some ''My App'') demo_options demo_world
   \<and> fs (snd (action demo_env (Some ''My App'') demo_options demo_world)) = fs demo_world
   \<and> list_all (\<lambda>ev. \<not> isSpawn ev \<and> \<not> isFsChange ev)
        (runEvents demo_env (Some ''My App'') demo_options demo_world)"
proof -
  have a: "inputError demo_env (Some ''My App'') demo_options demo_world"
    by (simp add: inputError_def targetsCwd_def example_defs)
  from C4_input_error_no_effects [OF a] a show ?thesis by simp
qed

text \<open>
  C5, as claimed: whenever the target is the working directory, the prompt is shown if
  and only if the directory has an entry whose name does not start with a dot. This
  fails for an unknown template id: \<open>createProject\<close> returns before it reads the
  directory, and no prompt is shown whatever the directory holds.
\<close>

theorem C5_prompt_unknown_template_counterexample:
  "targetsCwd None
   \<and> fs demo_world (cwd demo_env) = Some (Dir [''.git'', ''notes.txt''])
   \<and> \<not> startsWith ''notes.txt'' ''.''
   \<and> \<not> list_ex isPrompt (runEvents demo_env None unknown_template_options demo_world)"
proof -
  have "\<not> list_ex isPrompt (runEvents demo_env None unknown_template_options demo_world)"
    by (simp add: prompt_iff unknown_template_options_def validTemplates_def)
  then show ?thesis by (simp add: targetsCwd_def example_defs)
qed

text \<open>
  C5, amended: when the template id is one of the four valid ones and the target is the
  working directory, the prompt is shown if and only if the directory has an entry whose
  name does not start with a dot.
\<close>

theorem C5_prompt_iff_visible_entry:
  assumes "template opts \<in> set validTemplates" and "targetsCwd d"
    and "fs w (cwd e) = Some (Dir names)"
  shows "list_ex isPrompt (runEvents e d opts w)
     \<longleftrightarrow> (\<exists>name \<in> set names. \<not> startsWith name ''.'')"
  using assms by (auto simp: prompt_iff visibleEntries_def filter_empty_conv)

theorem C5_prompt_iff_visible_entry_witness:
  "template demo_options \<in> set validTemplates \<and> targetsCwd (Some ''.'')
   \<and> fs demo_world (cwd demo_env) = Some (Dir [''.git'', ''notes.txt''])
   \<and> list_ex isPrompt (runEvents demo_env (Some ''.'') demo_options demo_world)
   \<and> fs hidden_only_world (cwd demo_env) = Some (Dir [''.git''])
   \<and> \<not> list_ex isPrompt (runEvents demo_env (Some ''.'') demo_options hidden_only_world)"
proof -
  have v: "template demo_options \<in> set validTemplates" and t: "targetsCwd (Some ''.'')"
    by (simp_all add: demo_options_def validTemplates_def targetsCwd_def)
  have a: "fs demo_world (cwd demo_env) = Some (Dir [''.git'', ''notes.txt''])"
    and b: "fs hidden_only_world (cwd demo_env) = Some (Dir [''.git''])"
    by (simp_all add: example_defs hidden_only_world_def)
  from C5_prompt_iff_visible_entry [OF v t a] C5_prompt_iff_visible_entry [OF v t b] v t a b
  show ?thesis by simp
qed

text \<open>
  C6. A run in which the prompt is shown and not confirmed exits with status 0; all it
  does after the prompt is to print \<open>Operation cancelled.\<close>; it starts no child process
  and leaves the file system as it was.
\<close>

theorem C6_declined_prompt:
  assumes "list_ex isPrompt (runEvents e d opts w)" and "confirm e \<noteq> Some True"
  shows "fst (action e d opts w) = 0
    \<and> runEvents e d opts w = [Prompt promptQuestion, ConsoleLog [''Operation cancelled.'']]
    \<and> fs (snd (action e d opts w)) = fs w
    \<and> list_all (\<lambda>ev. \<not> isSpawn ev \<and> \<not> isFsChange ev) (runEvents e d opts w)"
proof -
  from assms obtain names where "template opts \<in> set validTemplates" "targetsCwd d"
    "fs w (cwd e) = Some (Dir names)" "visibleEntries names \<noteq> []" "confirm e \<noteq> Some True"
    by (auto simp: prompt_iff)
  from runEvents_normal [OF declined_run [OF this]] show ?thesis by simp
qed

theorem C6_declined_prompt_witness:
  "list_ex isPrompt (runEvents demo_env None demo_options demo_world)
   \<and> confirm demo_env = Some False
   \<and> fst (action demo_env None demo_options demo_world) = 0
   \<and> runEvents demo_env None demo_options demo_world
       = [Prompt promptQuestion, ConsoleLog [''Operation cancelled.'']]
   \<and> fs (snd (action demo_env None demo_options demo_world)) = fs demo_world"
proof -
  have b: "list_ex isPrompt (runEvents demo_env None demo_options demo_world)"
    by (rule prompt_shown [where names = "[''.git'', ''notes.txt'']"])
       (simp_all add: example_defs validTemplates_def targetsCwd_def visibleEntries_def)
  have c: "confirm demo_env = Some False" by (simp add: demo_env_def)
  then have "confirm demo_env \<noteq> Some True" by simp
  from C6_declined_prompt [OF b this] b c show ?thesis by simp
qed

text \<open>
  C8. With the Tailwind flag off the program itself writes and removes no file and starts
  no installation of a Tailwind package, in any run; and when the generator has
  succeeded, the file system it produced is handed as it is to the installation of the
  dependencies, whose result is the final file system.
\<close>

theorem C8_without_tailwind:
  assumes "\<not> tailwind opts"
  shows "list_all (\<lambda>ev. \<not> isFsChange ev \<and> \<not> isTailwindInstall ev) (runEvents e d opts w)
    \<and> (createProject_resolve e d opts w = (Inr (Some (projectName, projectPath)), w1)
        \<and> exec e ''npx'' (generatorArgs e opts projectName projectPath)
             (path_dirname projectPath) (fs w1) = (Close (Some 0), files)
        \<longrightarrow> fs (snd (action e d opts w)) = snd (exec e ''npm'' [''install''] projectPath files))"
proof (intro conjI impI)
  have "emits (\<lambda>ev. \<not> isFsChange ev \<and> \<not> isTailwindInstall ev) (createProject e d opts)"
    by (rule emits_createProject) (auto simp: assms elim: isTailwindInstall.elims)
  then show "list_all (\<lambda>ev. \<not> isFsChange ev \<and> \<not> isTailwindInstall ev) (runEvents e d opts w)"
    by (rule runEvents_all) simp
next
  assume "createProject_resolve e d opts w = (Inr (Some (projectName, projectPath)), w1)
        \<and> exec e ''npx'' (generatorArgs e opts projectName projectPath)
             (path_dirname projectPath) (fs w1) = (Close (Some 0), files)"
  with without_tailwind_fs [OF assms, of e d w projectName projectPath w1 files]
  show "fs (snd (action e d opts w)) = snd (exec e ''npm'' [''install''] projectPath files)"
    by (simp add: action_fs)
qed

theorem C8_without_tailwind_witness:
  "\<not> tailwind plain_options
   \<and> list_all (\<lambda>ev. \<not> isFsChange ev \<and> \<not> isTailwindInstall ev)
        (runEvents demo_env (Some ''my-app'') plain_options demo_world)
   \<and> fs (snd (action demo_env (Some ''my-app'') plain_options demo_world)) = demo_fs"
proof -
  have a: "\<not> tailwind plain_options" by (simp add: plain_options_def)
  have b: "exec demo_env ''npx'' (generatorArgs demo_env plain_options ''my-app'' demo_project_path)
      (path_dirname demo_project_path) (fs demo_world) = (Close (Some 0), demo_fs)"
    by (simp add: example_defs)
  have c: "snd (exec demo_env ''npm'' [''install''] demo_project_path demo_fs) = demo_fs"
    by (simp add: example_defs)
  from C8_without_tailwind [OF a, where e = demo_env and d = "Some ''my-app''" and w = demo_world
      and projectName = "''my-app''" and projectPath = demo_project_path and ?w1.0 = demo_world
      and files = demo_fs] a b c
  show ?thesis by (simp add: demo_resolve_named(2))
qed

end
